theory Spec2Isabelle
  imports Complex_Main
begin

section \<open>Numeric helpers shared by metrics.py and simulation.py\<close>

text \<open>
  Python floats are modelled as exact reals. \<open>PHI\<close> is the module constant
  \<^verbatim>\<open>PHI = (1 + np.sqrt(5)) / 2\<close> of both modules.
\<close>

definition PHI :: real where
  "PHI = (1 + sqrt 5) / 2"

text \<open>\<^verbatim>\<open>np.clip(x, lo, hi)\<close> is \<^verbatim>\<open>minimum(hi, maximum(x, lo))\<close>.\<close>

definition clip :: "real \<Rightarrow> real \<Rightarrow> real \<Rightarrow> real" where
  "clip x lo hi = min hi (max x lo)"

section \<open>simulation.py: calculate_equilibrium\<close>

text \<open>
  Lines 68--77: the three targets as computed before the \<^verbatim>\<open>np.clip\<close> calls of
  lines 80--82.
\<close>

definition equilibrium_unclipped :: "real \<Rightarrow> real \<Rightarrow> real \<Rightarrow> real \<Rightarrow> real \<times> real \<times> real" where
  "equilibrium_unclipped H0 V0 alpha0 target_ratio =
     (let total = H0 + V0;
          V_eq = total / (target_ratio + 1);
          H_eq = target_ratio * V_eq;
          alpha_eq = min 0.70 (alpha0 + 0.15)
      in (H_eq, V_eq, alpha_eq))"

definition calculate_equilibrium :: "real \<Rightarrow> real \<Rightarrow> real \<Rightarrow> real \<Rightarrow> real \<times> real \<times> real" where
  "calculate_equilibrium H0 V0 alpha0 target_ratio =
     (case equilibrium_unclipped H0 V0 alpha0 target_ratio of
        (H_eq, V_eq, alpha_eq) \<Rightarrow> (clip H_eq 0 1, clip V_eq 0 1, clip alpha_eq 0 1))"

section \<open>metrics.py: calculate_LEI and calculate_d_phi\<close>

text \<open>
  Exceptions are values. \<open>ValueError name param\<close> is the
  \<^verbatim>\<open>ValueError(f"{name} must be in [0, 1], got {param}")\<close> raised by the range
  checks of \<^verbatim>\<open>calculate_LEI\<close> and \<^verbatim>\<open>simulate_evolution\<close>; \<open>SamplesError num\<close> is
  the \<^verbatim>\<open>ValueError\<close> of \<^verbatim>\<open>np.linspace\<close> for a negative sample count; \<open>SeedError s\<close> is
  the \<^verbatim>\<open>ValueError\<close> of \<^verbatim>\<open>np.random.seed(s)\<close> for a seed outside \<open>0 .. 2\<^sup>3\<^sup>2 - 1\<close>;
  \<open>SolverError msg\<close> is an exception raised by the ODE solver itself. The \<^verbatim>\<open>warnings.warn\<close> calls of the two
  metrics for \<open>V = 0\<close> do not change what they return and are left out.
\<close>

datatype error =
    ValueError string real
  | ZeroDivisionError
  | IndexError
  | SamplesError int
  | SeedError int
  | SolverError string

text \<open>Python's \<^verbatim>\<open>round(x, ndigits)\<close>: ties go to the even neighbour.\<close>

definition round_half_even :: "real \<Rightarrow> int" where
  "round_half_even x =
     (let f = \<lfloor>x\<rfloor>; d = x - of_int f
      in if d < 1 / 2 then f else if 1 / 2 < d then f + 1 else if even f then f else f + 1)"

definition py_round :: "real \<Rightarrow> nat \<Rightarrow> real" where
  "py_round x ndigits = of_int (round_half_even (x * 10 ^ ndigits)) / 10 ^ ndigits"

text \<open>
  The loop \<^verbatim>\<open>for param, name in [...]: if not 0 <= param <= 1: raise ValueError(...)\<close>
  that opens \<^verbatim>\<open>calculate_LEI\<close> and \<^verbatim>\<open>simulate_evolution\<close>: the first offending pair
  raises.
\<close>

fun check_unit_interval :: "(real \<times> string) list \<Rightarrow> error option" where
  "check_unit_interval [] = None"
| "check_unit_interval ((param, name) # rest) =
     (if \<not> (0 \<le> param \<and> param \<le> 1) then Some (ValueError name param)
      else check_unit_interval rest)"

text \<open>
  A quotient of Python floats raises \<^verbatim>\<open>ZeroDivisionError\<close> on a zero divisor. With
  \<open>epsilon = 0.1\<close>, the default \<^verbatim>\<open>simulate_evolution\<close> calls it with, the divisor
  \<open>distance_phi + epsilon\<close> is positive.
\<close>

definition calculate_LEI :: "real \<Rightarrow> real \<Rightarrow> real \<Rightarrow> real \<Rightarrow> real \<Rightarrow> error + real" where
  "calculate_LEI H V alpha phi epsilon =
     (case check_unit_interval [(H, ''H''), (V, ''V''), (alpha, ''alpha'')] of
        Some e \<Rightarrow> Inl e
      | None \<Rightarrow>
          if V = 0 then Inr 0
          else
            (let HV_ratio = H / V;
                 distance_phi = \<bar>HV_ratio - phi\<bar>
             in if distance_phi + epsilon = 0 then Inl ZeroDivisionError
                else Inr (py_round ((V * alpha) / (distance_phi + epsilon)) 3)))"

definition calculate_d_phi :: "real \<Rightarrow> real \<Rightarrow> real \<Rightarrow> real" where
  "calculate_d_phi H V phi =
     (if V = 0 then 10
      else
        (let HV_ratio = H / V;
             d_phi_value = \<bar>HV_ratio - phi\<bar>
         in py_round d_phi_value 3))"

section \<open>The numerical backend\<close>

text \<open>
  \<^verbatim>\<open>simulation.py\<close> draws its random numbers from NumPy's process-wide generator and
  integrates with \<^verbatim>\<open>scipy.integrate.odeint\<close>. Neither is code of this repository, so
  both are parameters of the model. The generator state has type \<open>'g\<close> and is
  threaded through every function that touches it:
  \<^item> \<open>rng_seed s\<close> is the state after \<^verbatim>\<open>np.random.seed(s)\<close>, for a seed that NumPy
    accepts;
  \<^item> \<open>rng_uniform lo hi g\<close> and \<open>rng_normal loc scale g\<close> are one draw of
    \<^verbatim>\<open>np.random.uniform(lo, hi)\<close> and \<^verbatim>\<open>np.random.normal(loc, scale)\<close> from state \<open>g\<close>,
    with the state after the draw;
  \<^item> \<open>odeint f y0 t\<close> is the solver run on the right-hand side \<open>f\<close>: the sequence of
    points \<open>(y, s)\<close> at which it evaluates \<open>f\<close>, in order, and either the exception it
    raises itself or the rows it returns.
\<close>

type_synonym state = "real \<times> real \<times> real"

record 'g backend =
  rng_seed :: "int \<Rightarrow> 'g"
  rng_uniform :: "real \<Rightarrow> real \<Rightarrow> 'g \<Rightarrow> real \<times> 'g"
  rng_normal :: "real \<Rightarrow> real \<Rightarrow> 'g \<Rightarrow> real \<times> 'g"
  odeint :: "(state \<Rightarrow> real \<Rightarrow> state) \<Rightarrow> state \<Rightarrow> real list \<Rightarrow> (state \<times> real) list \<times> (string + state list)"

text \<open>
  What the documentation of \<^verbatim>\<open>odeint\<close> promises about the shape of its result, for
  a non-empty ascending sequence of times: one row per requested time, the first row
  being the initial value. (On integration trouble \<^verbatim>\<open>odeint\<close> warns and still returns
  its rows.) For a single requested time there is nothing to integrate: the initial
  value is returned and the right-hand side is not evaluated.
\<close>

definition odeint_contract :: "'g backend \<Rightarrow> bool" where
  "odeint_contract lib \<longleftrightarrow>
     (\<forall>f y0 t. t \<noteq> [] \<and> sorted t \<longrightarrow>
        (\<exists>rows. snd (odeint lib f y0 t) = Inr rows \<and> length rows = length t \<and> rows ! 0 = y0)) \<and>
     (\<forall>f y0 s. fst (odeint lib f y0 [s]) = [])"

text \<open>
  \<^verbatim>\<open>np.linspace(start, stop, num)\<close> with the endpoint included: a negative \<open>num\<close>
  raises, \<open>num = 1\<close> gives \<open>[start]\<close>.
\<close>

definition np_linspace :: "real \<Rightarrow> real \<Rightarrow> int \<Rightarrow> error + real list" where
  "np_linspace start stop num =
     (if num < 0 then Inl (SamplesError num)
      else Inr (map (\<lambda>i. if num = 1 then start
                          else start + real i * ((stop - start) / of_int (num - 1)))
                    [0..<nat num]))"

text \<open>Python's \<^verbatim>\<open>int(x)\<close> on a float truncates toward zero.\<close>

definition py_int :: "real \<Rightarrow> int" where
  "py_int x = (if 0 \<le> x then \<lfloor>x\<rfloor> else \<lceil>x\<rceil>)"

text \<open>
  \<^verbatim>\<open>np.random.seed(s)\<close> raises \<^verbatim>\<open>ValueError\<close> unless \<open>0 \<le> s \<le> 2\<^sup>3\<^sup>2 - 1\<close>; otherwise it sets
  the process-wide generator, whatever its state was.
\<close>

definition seed_accepted :: "int \<Rightarrow> bool" where
  "seed_accepted s \<longleftrightarrow> 0 \<le> s \<and> s \<le> 2 ^ 32 - 1"

definition np_random_seed :: "'g backend \<Rightarrow> int \<Rightarrow> error + 'g" where
  "np_random_seed lib s = (if seed_accepted s then Inr (rng_seed lib s) else Inl (SeedError s))"

text \<open>\<^verbatim>\<open>d.get(key, default)\<close> on an optional entry.\<close>

definition get_default :: "'a option \<Rightarrow> 'a \<Rightarrow> 'a" where
  "get_default entry dflt = (case entry of Some v \<Rightarrow> v | None \<Rightarrow> dflt)"

section \<open>simulation.py: ode_system\<close>

text \<open>
  The \<^verbatim>\<open>params\<close> dictionary: the three targets are read with \<^verbatim>\<open>params[...]\<close>, the
  other entries with \<^verbatim>\<open>params.get(..., default)\<close>.
\<close>

record params =
  H_eq :: real
  V_eq :: real
  alpha_eq :: real
  gamma_H :: "real option"
  gamma_V :: "real option"
  beta :: "real option"
  sigma_H :: "real option"
  sigma_V :: "real option"
  sigma_alpha :: "real option"
  noise_seed :: "int option"

text \<open>Line 134: the seed of a call at time \<open>t\<close>.\<close>

definition call_seed :: "params \<Rightarrow> real \<Rightarrow> int" where
  "call_seed p t = get_default (noise_seed p) 42 + py_int (t * 1000)"

text \<open>
  Lines 134--137: the process-wide generator is reseeded from the trajectory seed and
  the time, whatever its state was, and three standard normal values are drawn. The
  call raises when NumPy rejects the seed.
\<close>

definition noise_draws :: "'g backend \<Rightarrow> params \<Rightarrow> real \<Rightarrow> error + ((real \<times> real \<times> real) \<times> 'g)" where
  "noise_draws lib p t =
     (case np_random_seed lib (call_seed p t) of
        Inl e \<Rightarrow> Inl e
      | Inr g0 \<Rightarrow>
          (let (noise_H, g1) = rng_normal lib 0 1 g0;
               (noise_V, g2) = rng_normal lib 0 1 g1;
               (noise_alpha, g3) = rng_normal lib 0 1 g2
           in Inr ((noise_H, noise_V, noise_alpha), g3)))"

text \<open>Lines 140--145.\<close>

definition selection_pressure :: "real \<Rightarrow> real \<Rightarrow> real" where
  "selection_pressure H V =
     (if V > 0 then
        (let HV_ratio = H / V;
             distance_phi = \<bar>HV_ratio - PHI\<bar>
         in exp (- distance_phi))
      else 0)"

text \<open>
  \<open>ode_system\<close> takes the generator state on entry and returns the derivative with the
  state it leaves, or the exception of line 134.
\<close>

definition ode_system :: "'g backend \<Rightarrow> state \<Rightarrow> real \<Rightarrow> params \<Rightarrow> 'g \<Rightarrow> error + (state \<times> 'g)" where
  "ode_system lib y t p g =
     (case y of (H, V, alpha) \<Rightarrow>
        (case noise_draws lib p t of
           Inl e \<Rightarrow> Inl e
         | Inr ((noise_H, noise_V, noise_alpha), g') \<Rightarrow>
             (let dH_dt = get_default (gamma_H p) 0.05 * (H_eq p - H)
                            + get_default (sigma_H p) 0.01 * noise_H;
                  dV_dt = get_default (gamma_V p) 0.08 * (V_eq p - V)
                            + get_default (sigma_V p) 0.01 * noise_V;
                  dalpha_dt = get_default (beta p) 0.015 * (alpha_eq p - alpha) * selection_pressure H V
                            + get_default (sigma_alpha p) 0.005 * noise_alpha
              in Inr ((dH_dt, dV_dt, dalpha_dt), g'))))"

section \<open>simulation.py: simulate_evolution\<close>

text \<open>
  The keyword arguments of \<^verbatim>\<open>simulate_evolution\<close> after \<^verbatim>\<open>years\<close>, with the defaults of
  its signature.
\<close>

record options =
  opt_gamma_H :: real
  opt_gamma_V :: real
  opt_beta :: real
  opt_sigma_H :: real
  opt_sigma_V :: real
  opt_sigma_alpha :: real
  opt_noise_seed :: int

definition default_options :: options where
  "default_options =
     \<lparr>opt_gamma_H = 0.05, opt_gamma_V = 0.08, opt_beta = 0.015,
      opt_sigma_H = 0.01, opt_sigma_V = 0.01, opt_sigma_alpha = 0.005,
      opt_noise_seed = 42\<rparr>"

text \<open>The dictionary \<^verbatim>\<open>simulate_evolution\<close> returns.\<close>

record trajectory =
  traj_time :: "real list"
  traj_H :: "real list"
  traj_V :: "real list"
  traj_alpha :: "real list"
  traj_LEI :: "real list"
  traj_d_phi :: "real list"
  traj_H_eq :: real
  traj_V_eq :: real
  traj_alpha_eq :: real

text \<open>Lines 221--235: the equilibrium and the parameter dictionary.\<close>

definition make_params :: "real \<Rightarrow> real \<Rightarrow> real \<Rightarrow> options \<Rightarrow> params" where
  "make_params H0 V0 alpha0 opts =
     (case calculate_equilibrium H0 V0 alpha0 PHI of
        (Heq, Veq, aeq) \<Rightarrow>
          \<lparr>H_eq = Heq, V_eq = Veq, alpha_eq = aeq,
           gamma_H = Some (opt_gamma_H opts), gamma_V = Some (opt_gamma_V opts),
           beta = Some (opt_beta opts),
           sigma_H = Some (opt_sigma_H opts), sigma_V = Some (opt_sigma_V opts),
           sigma_alpha = Some (opt_sigma_alpha opts),
           noise_seed = Some (opt_noise_seed opts)\<rparr>)"

text \<open>A list comprehension whose element expression may raise: the first exception wins.\<close>

fun collect :: "(error + 'a) list \<Rightarrow> error + 'a list" where
  "collect [] = Inr []"
| "collect (Inl e # rest) = Inl e"
| "collect (Inr v # rest) = (case collect rest of Inl e \<Rightarrow> Inl e | Inr vs \<Rightarrow> Inr (v # vs))"

text \<open>
  The solver calls \<^verbatim>\<open>ode_system\<close> at the points it chooses. What a call returns does
  not depend on the generator state on entry (line 134 reseeds), so the right-hand side
  the solver sees is a function of the point alone: \<open>rhs\<close>. A call whose seed NumPy
  rejects raises; the exception leaves \<^verbatim>\<open>odeint\<close> and the run ends there, so the value
  of \<open>rhs\<close> at such a point is never used. \<open>replay\<close> runs the recorded calls in order on
  the generator: it stops at the first call that raises, with the generator as the
  calls before it left it.
\<close>

definition rhs :: "'g backend \<Rightarrow> params \<Rightarrow> 'g \<Rightarrow> state \<Rightarrow> real \<Rightarrow> state" where
  "rhs lib p g y s = (case ode_system lib y s p g of Inr (dy, g') \<Rightarrow> dy | Inl e \<Rightarrow> (0, 0, 0))"

fun replay :: "'g backend \<Rightarrow> params \<Rightarrow> (state \<times> real) list \<Rightarrow> 'g \<Rightarrow> error option \<times> 'g" where
  "replay lib p [] g = (None, g)"
| "replay lib p ((y, s) # calls) g =
     (case ode_system lib y s p g of
        Inl e \<Rightarrow> (Some e, g)
      | Inr (dy, g') \<Rightarrow> replay lib p calls g')"

definition simulate_evolution ::
  "'g backend \<Rightarrow> real \<Rightarrow> real \<Rightarrow> real \<Rightarrow> int \<Rightarrow> options \<Rightarrow> 'g \<Rightarrow> (error + trajectory) \<times> 'g" where
  "simulate_evolution lib H0 V0 alpha0 years opts g =
     (case check_unit_interval [(H0, ''H0''), (V0, ''V0''), (alpha0, ''alpha0'')] of
        Some e \<Rightarrow> (Inl e, g)
      | None \<Rightarrow>
          (let p = make_params H0 V0 alpha0 opts in
           case np_linspace 0 (of_int years) (years + 1) of
             Inl e \<Rightarrow> (Inl e, g)
           | Inr t \<Rightarrow>
               (case odeint lib (rhs lib p g) (H0, V0, alpha0) t of
                  (calls, outcome) \<Rightarrow>
                    (case replay lib p calls g of
                       (Some e, g') \<Rightarrow> (Inl e, g')
                     | (None, g') \<Rightarrow>
                         (case outcome of
                            Inl msg \<Rightarrow> (Inl (SolverError msg), g')
                          | Inr solution \<Rightarrow>
                              (case collect (map (\<lambda>(H, V, alpha). calculate_LEI H V alpha PHI 0.1) solution) of
                                 Inl e \<Rightarrow> (Inl e, g')
                               | Inr LEI_traj \<Rightarrow>
                                   (Inr \<lparr>traj_time = t,
                                         traj_H = map (\<lambda>(H, V, alpha). H) solution,
                                         traj_V = map (\<lambda>(H, V, alpha). V) solution,
                                         traj_alpha = map (\<lambda>(H, V, alpha). alpha) solution,
                                         traj_LEI = LEI_traj,
                                         traj_d_phi = map (\<lambda>(H, V, alpha). calculate_d_phi H V PHI) solution,
                                         traj_H_eq = H_eq p, traj_V_eq = V_eq p,
                                         traj_alpha_eq = alpha_eq p\<rparr>, g')))))))"

section \<open>simulation.py: simulate_multiple_trajectories\<close>

text \<open>
  \<^verbatim>\<open>**kwargs\<close>: each keyword of \<^verbatim>\<open>simulate_evolution\<close> may be present or absent; binding
  the call fills an absent one with the default of the signature.
\<close>

record kwargs =
  kw_gamma_H :: "real option"
  kw_gamma_V :: "real option"
  kw_beta :: "real option"
  kw_sigma_H :: "real option"
  kw_sigma_V :: "real option"
  kw_sigma_alpha :: "real option"
  kw_noise_seed :: "int option"

definition bind_kwargs :: "kwargs \<Rightarrow> options" where
  "bind_kwargs kw =
     \<lparr>opt_gamma_H = get_default (kw_gamma_H kw) (opt_gamma_H default_options),
      opt_gamma_V = get_default (kw_gamma_V kw) (opt_gamma_V default_options),
      opt_beta = get_default (kw_beta kw) (opt_beta default_options),
      opt_sigma_H = get_default (kw_sigma_H kw) (opt_sigma_H default_options),
      opt_sigma_V = get_default (kw_sigma_V kw) (opt_sigma_V default_options),
      opt_sigma_alpha = get_default (kw_sigma_alpha kw) (opt_sigma_alpha default_options),
      opt_noise_seed = get_default (kw_noise_seed kw) (opt_noise_seed default_options)\<rparr>"

text \<open>A member of the returned list: the trajectory with the four annotations of lines 332--335.\<close>

record member = trajectory +
  simulation_id :: int
  member_H0 :: real
  member_V0 :: real
  member_alpha0 :: real

definition annotate :: "trajectory \<Rightarrow> int \<Rightarrow> real \<Rightarrow> real \<Rightarrow> real \<Rightarrow> member" where
  "annotate result i H0 V0 alpha0 =
     trajectory.extend result
       \<lparr>simulation_id = i, member_H0 = H0, member_V0 = V0, member_alpha0 = alpha0\<rparr>"

text \<open>Lines 321--323: the three uniform draws of one run, from the generator as it stands.\<close>

definition draw_initial ::
  "'g backend \<Rightarrow> real \<times> real \<Rightarrow> real \<times> real \<Rightarrow> real \<times> real \<Rightarrow> 'g \<Rightarrow> state \<times> 'g" where
  "draw_initial lib H_range V_range alpha_range g =
     (let (H0, g1) = rng_uniform lib (fst H_range) (snd H_range) g;
          (V0, g2) = rng_uniform lib (fst V_range) (snd V_range) g1;
          (alpha0, g3) = rng_uniform lib (fst alpha_range) (snd alpha_range) g2
      in ((H0, V0, alpha0), g3))"

text \<open>
  The loop body for the run indices still to do. A warning is the pair of the run
  index and the exception, the content of \<^verbatim>\<open>f"Simulation {i} failed: {e}"\<close>.
\<close>

fun run_batch ::
  "'g backend \<Rightarrow> int \<Rightarrow> real \<times> real \<Rightarrow> real \<times> real \<Rightarrow> real \<times> real \<Rightarrow> kwargs \<Rightarrow>
     int list \<Rightarrow> 'g \<Rightarrow> member list \<times> (int \<times> error) list \<times> 'g" where
  "run_batch lib years H_range V_range alpha_range kw [] g = ([], [], g)"
| "run_batch lib years H_range V_range alpha_range kw (i # rest) g =
     (case draw_initial lib H_range V_range alpha_range g of
        ((H0, V0, alpha0), g1) \<Rightarrow>
          (let kwargs_copy = kw\<lparr>kw_noise_seed := Some (get_default (kw_noise_seed kw) 42 + i)\<rparr> in
           case simulate_evolution lib H0 V0 alpha0 years (bind_kwargs kwargs_copy) g1 of
             (Inr result, g2) \<Rightarrow>
               (case run_batch lib years H_range V_range alpha_range kw rest g2 of
                  (trajectories, warnings, g3) \<Rightarrow>
                    (annotate result i H0 V0 alpha0 # trajectories, warnings, g3))
           | (Inl e, g2) \<Rightarrow>
               (case run_batch lib years H_range V_range alpha_range kw rest g2 of
                  (trajectories, warnings, g3) \<Rightarrow> (trajectories, (i, e) # warnings, g3))))"



section \<open>simulation.py: analyze_convergence\<close>

text \<open>A NumPy float that may be the not-a-number sentinel.\<close>

datatype npfloat = NaN | Num real

text \<open>\<^verbatim>\<open>np.mean\<close> and \<^verbatim>\<open>np.std\<close> (population form) return \<^verbatim>\<open>nan\<close> on an empty sample.\<close>

definition np_mean :: "real list \<Rightarrow> npfloat" where
  "np_mean xs = (if xs = [] then NaN else Num (sum_list xs / real (length xs)))"

definition np_std :: "real list \<Rightarrow> npfloat" where
  "np_std xs =
     (if xs = [] then NaN
      else
        (let m = sum_list xs / real (length xs)
         in Num (sqrt (sum_list (map (\<lambda>x. (x - m)\<^sup>2) xs) / real (length xs)))))"

text \<open>\<^verbatim>\<open>xs[-1]\<close> and \<^verbatim>\<open>xs[i]\<close> for \<open>i \<ge> 0\<close>: out of range raises \<^verbatim>\<open>IndexError\<close>.\<close>

definition py_last :: "'a list \<Rightarrow> error + 'a" where
  "py_last xs = (if xs = [] then Inl IndexError else Inr (last xs))"

definition py_index :: "'a list \<Rightarrow> nat \<Rightarrow> error + 'a" where
  "py_index xs i = (if i < length xs then Inr (xs ! i) else Inl IndexError)"

text \<open>\<^verbatim>\<open>np.where(d_phi_traj < threshold_dphi)[0]\<close>: the indices below the threshold, ascending.\<close>

definition where_below :: "real list \<Rightarrow> real \<Rightarrow> nat list" where
  "where_below d_phi_traj threshold_dphi =
     filter (\<lambda>i. d_phi_traj ! i < threshold_dphi) [0..<length d_phi_traj]"

text \<open>
  The loop of lines 370--385 over the trajectories still to read, with the four lists
  it appends to.
\<close>

fun tally ::
  "real \<Rightarrow> 'a trajectory_scheme list \<Rightarrow>
     'a trajectory_scheme list \<times> real list \<times> real list \<times> real list \<Rightarrow>
     error + ('a trajectory_scheme list \<times> real list \<times> real list \<times> real list)" where
  "tally threshold_dphi [] acc = Inr acc"
| "tally threshold_dphi (traj # rest) (converged, convergence_times, final_dphis, final_ratios) =
     (case py_last (traj_d_phi traj) of
        Inl e \<Rightarrow> Inl e
      | Inr final_dphi \<Rightarrow>
          (case (if final_dphi < threshold_dphi then
                   (case where_below (traj_d_phi traj) threshold_dphi of
                      [] \<Rightarrow> Inr (converged @ [traj], convergence_times)
                    | i # conv_idx \<Rightarrow>
                        (case py_index (traj_time traj) i of
                           Inl e \<Rightarrow> Inl e
                         | Inr tm \<Rightarrow> Inr (converged @ [traj], convergence_times @ [tm])))
                 else Inr (converged, convergence_times)) of
             Inl e \<Rightarrow> Inl e
           | Inr (converged', convergence_times') \<Rightarrow>
               (case py_last (traj_V traj) of
                  Inl e \<Rightarrow> Inl e
                | Inr V_last \<Rightarrow>
                    if V_last > 0.1 then
                      (case py_last (traj_H traj) of
                         Inl e \<Rightarrow> Inl e
                       | Inr H_last \<Rightarrow>
                           tally threshold_dphi rest
                             (converged', convergence_times', final_dphis @ [final_dphi],
                              final_ratios @ [H_last / V_last]))
                    else
                      tally threshold_dphi rest
                        (converged', convergence_times', final_dphis @ [final_dphi],
                         final_ratios))))"

record report =
  n_total :: nat
  n_converged :: nat
  convergence_rate :: real
  mean_convergence_time :: npfloat
  std_convergence_time :: npfloat
  final_mean_dphi :: npfloat
  final_std_dphi :: npfloat
  final_mean_HV_ratio :: npfloat
  final_std_HV_ratio :: npfloat
  distance_to_phi :: npfloat

text \<open>
  The returned dictionary is built entry by entry, in the order written; the quotient
  \<^verbatim>\<open>len(converged) / n_total\<close> of two Python integers raises \<^verbatim>\<open>ZeroDivisionError\<close> when
  \<open>n_total\<close> is 0.
\<close>

definition analyze_convergence :: "'a trajectory_scheme list \<Rightarrow> real \<Rightarrow> error + report" where
  "analyze_convergence trajectories threshold_dphi =
     (let total = length trajectories in
      case tally threshold_dphi trajectories ([], [], [], []) of
        Inl e \<Rightarrow> Inl e
      | Inr (converged, convergence_times, final_dphis, final_ratios) \<Rightarrow>
          if total = 0 then Inl ZeroDivisionError
          else
            Inr \<lparr>n_total = total,
                 n_converged = length converged,
                 convergence_rate = real (length converged) / real total,
                 mean_convergence_time =
                   (if convergence_times \<noteq> [] then np_mean convergence_times else NaN),
                 std_convergence_time =
                   (if convergence_times \<noteq> [] then np_std convergence_times else NaN),
                 final_mean_dphi = np_mean final_dphis,
                 final_std_dphi = np_std final_dphis,
                 final_mean_HV_ratio = (if final_ratios \<noteq> [] then np_mean final_ratios else NaN),
                 final_std_HV_ratio = (if final_ratios \<noteq> [] then np_std final_ratios else NaN),
                 distance_to_phi =
                   (if final_ratios \<noteq> [] then
                      (case np_mean final_ratios of NaN \<Rightarrow> NaN | Num m \<Rightarrow> Num \<bar>m - PHI\<bar>)
                    else NaN)\<rparr>)"

section \<open>A concrete backend for evaluation\<close>

text \<open>
  The theorems below hold for every backend. To evaluate the model at concrete inputs
  a small backend is fixed: a generator whose state is a counter modulo 16, and a
  solver that takes one explicit step per grid interval and evaluates the right-hand
  side once at the start of each interval.
\<close>

definition grid_uniform :: "real \<Rightarrow> real \<Rightarrow> int \<Rightarrow> real \<times> int" where
  "grid_uniform lo hi g = (lo + (hi - lo) * (of_int (g mod 16) / 16), (5 * g + 3) mod 16)"

definition grid_normal :: "real \<Rightarrow> real \<Rightarrow> int \<Rightarrow> real \<times> int" where
  "grid_normal loc scale g = (loc + scale * ((of_int (g mod 16) - 8) / 8), (5 * g + 3) mod 16)"

text \<open>One explicit step of size \<open>h\<close> from the state \<open>y\<close> along the derivative \<open>dy\<close>.\<close>

definition advance :: "state \<Rightarrow> real \<Rightarrow> state \<Rightarrow> state" where
  "advance y h dy = (case y of (H, V, alpha) \<Rightarrow> case dy of (dH, dV, dalpha) \<Rightarrow>
     (H + h * dH, V + h * dV, alpha + h * dalpha))"

primrec step_rows :: "(state \<Rightarrow> real \<Rightarrow> state) \<Rightarrow> state \<Rightarrow> real \<Rightarrow> real list \<Rightarrow> (state \<times> real) list" where
  "step_rows f y s [] = [(y, s)]"
| "step_rows f y s (s' # rest) = (y, s) # step_rows f (advance y (s' - s) (f y s)) s' rest"

definition step_odeint ::
  "(state \<Rightarrow> real \<Rightarrow> state) \<Rightarrow> state \<Rightarrow> real list \<Rightarrow> (state \<times> real) list \<times> (string + state list)" where
  "step_odeint f y0 t =
     (case t of
        [] \<Rightarrow> ([], Inl ''empty time grid'')
      | s # rest \<Rightarrow> (butlast (step_rows f y0 s rest), Inr (map fst (step_rows f y0 s rest))))"

definition step_backend :: "int backend" where
  "step_backend =
     \<lparr>rng_seed = (\<lambda>s. s mod 16), rng_uniform = grid_uniform, rng_normal = grid_normal,
      odeint = step_odeint\<rparr>"

section \<open>The scheme of the specification and the solution of the system\<close>

text \<open>
  Section 4.3 of the specification describes the integration as a fixed unit step:
  \<open>x(t+1) = x(t) + dx/dt\<close>, with \<open>dx/dt\<close> the right-hand side at the recorded state
  \<open>x(t)\<close> and time \<open>t\<close>. \<open>follows_euler_maruyama\<close> says this of a trajectory, for every
  step below the horizon.
\<close>

definition follows_euler_maruyama :: "'g backend \<Rightarrow> params \<Rightarrow> 'g \<Rightarrow> trajectory \<Rightarrow> int \<Rightarrow> bool" where
  "follows_euler_maruyama lib p g tr years \<longleftrightarrow>
     (\<forall>k < nat years.
        \<exists>dy g'.
          ode_system lib (traj_H tr ! k, traj_V tr ! k, traj_alpha tr ! k) (real k) p g = Inr (dy, g') \<and>
          (traj_H tr ! Suc k, traj_V tr ! Suc k, traj_alpha tr ! Suc k) =
            advance (traj_H tr ! k, traj_V tr ! k, traj_alpha tr ! k) 1 dy)"

text \<open>
  A configuration without noise and without growth of \<open>alpha\<close>: the three noise
  magnitudes and \<open>beta\<close> are zero, the two mean-reversion rates keep their defaults.
\<close>

definition quiet_options :: options where
  "quiet_options =
     default_options\<lparr>opt_beta := 0, opt_sigma_H := 0, opt_sigma_V := 0, opt_sigma_alpha := 0\<rparr>"

text \<open>
  Under such a configuration the system is \<open>dH/dt = gamma_H * (H_eq - H)\<close>,
  \<open>dV/dt = gamma_V * (V_eq - V)\<close>, \<open>dalpha/dt = 0\<close>, and its solution from
  \<open>(H0, V0, alpha0)\<close> at time 0 is \<open>exact_flow\<close> (lemmas \<open>exact_flow_solves\<close> and
  \<open>linear_ode_unique\<close> below).
\<close>

definition exact_flow :: "params \<Rightarrow> state \<Rightarrow> real \<Rightarrow> state" where
  "exact_flow p y0 s =
     (case y0 of (H0, V0, alpha0) \<Rightarrow>
        (H_eq p + (H0 - H_eq p) * exp (- get_default (gamma_H p) 0.05 * s),
         V_eq p + (V0 - V_eq p) * exp (- get_default (gamma_V p) 0.08 * s),
         alpha0))"

text \<open>
  A backend whose solver returns this solution, started at the first grid time; it
  evaluates the right-hand side nowhere.
\<close>

definition flow_odeint ::
  "params \<Rightarrow> (state \<Rightarrow> real \<Rightarrow> state) \<Rightarrow> state \<Rightarrow> real list \<Rightarrow> (state \<times> real) list \<times> (string + state list)" where
  "flow_odeint p f y0 t = ([], Inr (map (\<lambda>s. exact_flow p y0 (s - hd t)) t))"

definition flow_backend :: "params \<Rightarrow> int backend" where
  "flow_backend p = step_backend\<lparr>odeint := flow_odeint p\<rparr>"

text \<open>The defaults with the two mean-reversion rates and \<open>beta\<close> set to zero: the noise alone moves the state.\<close>

definition drift_free_options :: options where
  "drift_free_options = default_options\<lparr>opt_gamma_H := 0, opt_gamma_V := 0, opt_beta := 0\<rparr>"

text \<open>A call that passes no keyword.\<close>

definition empty_kwargs :: kwargs where
  "empty_kwargs =
     \<lparr>kw_gamma_H = None, kw_gamma_V = None, kw_beta = None, kw_sigma_H = None,
      kw_sigma_V = None, kw_sigma_alpha = None, kw_noise_seed = None\<rparr>"

section \<open>Auxiliary facts\<close>

subsection \<open>Rounding and the range check\<close>

lemma round_half_even_nonneg: "0 \<le> x \<Longrightarrow> 0 \<le> round_half_even x"
  by (auto simp: round_half_even_def Let_def)

lemma py_round_nonneg: "0 \<le> x \<Longrightarrow> 0 \<le> py_round x n"
  by (simp add: py_round_def round_half_even_nonneg)

lemma calculate_d_phi_nonneg: "0 \<le> calculate_d_phi H V phi"
  by (simp add: calculate_d_phi_def Let_def py_round_nonneg)

lemma check_fields_Some:
  "check_unit_interval [(a, na), (b, nb), (c, nc)] = Some e \<Longrightarrow>
     (e = ValueError na a \<and> \<not> (0 \<le> a \<and> a \<le> 1)) \<or>
     (e = ValueError nb b \<and> \<not> (0 \<le> b \<and> b \<le> 1)) \<or>
     (e = ValueError nc c \<and> \<not> (0 \<le> c \<and> c \<le> 1))"
  by (auto split: if_splits)

lemma calculate_LEI_error:
  assumes "calculate_LEI H V alpha PHI 0.1 = Inl e"
  shows "\<exists>name v. e = ValueError name v \<and> name \<in> {''H'', ''V'', ''alpha''} \<and> \<not> (0 \<le> v \<and> v \<le> 1)"
proof (cases "check_unit_interval [(H, ''H''), (V, ''V''), (alpha, ''alpha'')]")
  case None
  have "\<bar>H / V - PHI\<bar> + 0.1 \<noteq> 0" by linarith
  with None assms show ?thesis
    by (simp add: calculate_LEI_def Let_def split: if_splits)
next
  case (Some e')
  with assms have "e' = e" by (simp add: calculate_LEI_def)
  with check_fields_Some [OF Some] show ?thesis by auto
qed

lemma calculate_LEI_valid:
  assumes "0 \<le> H \<and> H \<le> 1" "0 \<le> V \<and> V \<le> 1" "0 \<le> alpha \<and> alpha \<le> 1"
  shows "\<exists>lei. calculate_LEI H V alpha PHI 0.1 = Inr lei"
proof -
  have "\<bar>H / V - PHI\<bar> + 0.1 \<noteq> 0" by linarith
  with assms show ?thesis
    by (simp add: calculate_LEI_def Let_def)
qed

subsection \<open>The time grid and the list comprehensions\<close>

lemma np_linspace_years:
  assumes "0 \<le> years"
  shows "np_linspace 0 (of_int years) (years + 1) = Inr (map real [0..<nat years + 1])"
proof (cases "years = 0")
  case True
  then show ?thesis by (simp add: np_linspace_def)
next
  case False
  with assms have pos: "0 < years" by simp
  then have n: "nat (years + 1) = nat years + 1" by simp
  from pos have "real_of_int years / real_of_int years = 1" by simp
  with pos show ?thesis
    by (simp add: np_linspace_def n del: upt_Suc)
qed

lemma sorted_wrt_grid: "sorted_wrt (<) (map real [0..<n])"
  by (simp add: sorted_wrt_map)

lemma sorted_grid: "sorted (map real [0..<n])"
  by (simp add: sorted_map)

lemma contract_rows:
  "odeint_contract lib \<Longrightarrow> t \<noteq> [] \<Longrightarrow> sorted t \<Longrightarrow>
     \<exists>rows. snd (odeint lib f y0 t) = Inr rows \<and> length rows = length t \<and> rows ! 0 = y0"
  unfolding odeint_contract_def by blast

lemma contract_single: "odeint_contract lib \<Longrightarrow> fst (odeint lib f y0 [s]) = []"
  unfolding odeint_contract_def by blast

lemma collect_length: "collect xs = Inr vs \<Longrightarrow> length vs = length xs"
  by (induction xs arbitrary: vs rule: collect.induct) (auto split: sum.splits)

lemma collect_error: "collect xs = Inl e \<Longrightarrow> Inl e \<in> set xs"
  by (induction xs rule: collect.induct) (auto split: sum.splits)

lemma LEI_rows_error:
  assumes "collect (map (\<lambda>(H, V, alpha). calculate_LEI H V alpha PHI 0.1) solution) = Inl e"
  shows "\<exists>name v. e = ValueError name v \<and> name \<in> {''H'', ''V'', ''alpha''} \<and> \<not> (0 \<le> v \<and> v \<le> 1)"
proof -
  from collect_error [OF assms] obtain H V alpha
    where "calculate_LEI H V alpha PHI 0.1 = Inl e" by auto
  then show ?thesis by (rule calculate_LEI_error)
qed

subsection \<open>The generator across calls of ode_system\<close>

lemma noise_draws_accepted:
  "seed_accepted (call_seed p s) \<Longrightarrow> \<exists>noise g'. noise_draws lib p s = Inr (noise, g')"
  by (simp add: noise_draws_def np_random_seed_def Let_def split: prod.splits)

lemma noise_draws_rejected:
  "\<not> seed_accepted (call_seed p s) \<Longrightarrow> noise_draws lib p s = Inl (SeedError (call_seed p s))"
  by (simp add: noise_draws_def np_random_seed_def)

lemma ode_system_entry_state: "ode_system lib y s p g = ode_system lib y s p g'"
  by (simp add: ode_system_def)

lemma ode_system_Inr:
  "ode_system lib y s p g = Inr (dy, g') \<Longrightarrow> \<exists>noise. noise_draws lib p s = Inr (noise, g')"
  by (auto simp: ode_system_def Let_def split: prod.splits sum.splits)

lemma ode_system_Inl:
  assumes "ode_system lib y s p g = Inl e"
  shows "e = SeedError (call_seed p s) \<and> \<not> seed_accepted (call_seed p s)"
proof (cases "seed_accepted (call_seed p s)")
  case True
  from noise_draws_accepted [OF True, of lib] obtain noise g' where "noise_draws lib p s = Inr (noise, g')"
    by blast
  with assms show ?thesis
    by (simp add: ode_system_def Let_def split: prod.splits)
next
  case False
  from noise_draws_rejected [OF False, of lib] assms show ?thesis
    by (simp add: ode_system_def False split: prod.splits)
qed

lemma ode_system_accepted:
  assumes "seed_accepted (call_seed p s)"
  shows "\<exists>dy g'. ode_system lib y s p g = Inr (dy, g')"
proof (cases "ode_system lib y s p g")
  case (Inl e)
  from ode_system_Inl [OF Inl] assms show ?thesis by simp
next
  case (Inr r)
  obtain dy g' where "r = (dy, g')" by (cases r)
  with Inr show ?thesis by blast
qed

lemma replay_error: "fst (replay lib p calls g) = Some e \<Longrightarrow> \<exists>s. e = SeedError s"
proof (induction calls arbitrary: g)
  case Nil
  then show ?case by simp
next
  case (Cons c calls)
  obtain y s where c: "c = (y, s)" by (cases c)
  show ?case
  proof (cases "ode_system lib y s p g")
    case (Inl e')
    with Cons.prems c have "e = e'" by simp
    with ode_system_Inl [OF Inl] show ?thesis by blast
  next
    case (Inr r)
    obtain dy g' where "r = (dy, g')" by (cases r)
    with Inr Cons.prems c have "fst (replay lib p calls g') = Some e" by simp
    then show ?thesis by (rule Cons.IH)
  qed
qed

lemma replay_accepted:
  assumes "\<forall>(y, s) \<in> set calls. seed_accepted (call_seed p s)"
  shows "fst (replay lib p calls g) = None \<and>
         (calls \<noteq> [] \<longrightarrow>
            (\<exists>noise. noise_draws lib p (snd (last calls)) = Inr (noise, snd (replay lib p calls g))))"
  using assms
proof (induction calls arbitrary: g)
  case Nil
  then show ?case by simp
next
  case (Cons c calls)
  obtain y s where c: "c = (y, s)" by (cases c)
  from Cons.prems c have acc: "seed_accepted (call_seed p s)"
    and rest: "\<forall>(y, s) \<in> set calls. seed_accepted (call_seed p s)" by simp_all
  from ode_system_accepted [OF acc, where lib = lib and y = y and g = g]
  obtain dy g' where run: "ode_system lib y s p g = Inr (dy, g')"
    by blast
  from ode_system_Inr [OF run] obtain noise where noise: "noise_draws lib p s = Inr (noise, g')" ..
  have step: "replay lib p (c # calls) g = replay lib p calls g'"
    using run c by simp
  show ?case
  proof (cases "calls = []")
    case True
    with step have r: "replay lib p (c # calls) g = (None, g')" by simp
    from True c have l: "snd (last (c # calls)) = s" by simp
    from noise have "noise_draws lib p (snd (last (c # calls))) = Inr (noise, snd (replay lib p (c # calls) g))"
      unfolding r l by simp
    then have "\<exists>noise. noise_draws lib p (snd (last (c # calls))) =
                 Inr (noise, snd (replay lib p (c # calls) g))" ..
    moreover from r have "fst (replay lib p (c # calls) g) = None" by (simp del: replay.simps)
    ultimately show ?thesis by blast
  next
    case False
    then have l: "last (c # calls) = last calls" by simp
    from Cons.IH [OF rest, of g'] False show ?thesis
      unfolding step l by blast
  qed
qed

subsection \<open>Unfolding simulate_evolution\<close>

lemma simulate_evolution_valid:
  assumes "0 \<le> H0 \<and> H0 \<le> 1" "0 \<le> V0 \<and> V0 \<le> 1" "0 \<le> alpha0 \<and> alpha0 \<le> 1"
    and "np_linspace 0 (of_int years) (years + 1) = Inr t"
    and "odeint lib (rhs lib (make_params H0 V0 alpha0 opts) g) (H0, V0, alpha0) t = (calls, Inr solution)"
    and "fst (replay lib (make_params H0 V0 alpha0 opts) calls g) = None"
  shows "simulate_evolution lib H0 V0 alpha0 years opts g =
           (case collect (map (\<lambda>(H, V, alpha). calculate_LEI H V alpha PHI 0.1) solution) of
              Inl e \<Rightarrow> (Inl e, snd (replay lib (make_params H0 V0 alpha0 opts) calls g))
            | Inr LEI_traj \<Rightarrow>
                (Inr \<lparr>traj_time = t,
                      traj_H = map (\<lambda>(H, V, alpha). H) solution,
                      traj_V = map (\<lambda>(H, V, alpha). V) solution,
                      traj_alpha = map (\<lambda>(H, V, alpha). alpha) solution,
                      traj_LEI = LEI_traj,
                      traj_d_phi = map (\<lambda>(H, V, alpha). calculate_d_phi H V PHI) solution,
                      traj_H_eq = H_eq (make_params H0 V0 alpha0 opts),
                      traj_V_eq = V_eq (make_params H0 V0 alpha0 opts),
                      traj_alpha_eq = alpha_eq (make_params H0 V0 alpha0 opts)\<rparr>,
                 snd (replay lib (make_params H0 V0 alpha0 opts) calls g)))"
proof -
  have "check_unit_interval [(H0, ''H0''), (V0, ''V0''), (alpha0, ''alpha0'')] = None"
    using assms(1-3) by simp
  moreover obtain g' where "replay lib (make_params H0 V0 alpha0 opts) calls g = (None, g')"
    using assms(6) by (cases "replay lib (make_params H0 V0 alpha0 opts) calls g") simp
  ultimately show ?thesis
    using assms(4,5) by (simp add: simulate_evolution_def Let_def split: sum.splits)
qed

lemma simulate_evolution_Inr:
  assumes "fst (simulate_evolution lib H0 V0 alpha0 years opts g) = Inr tr"
  shows "\<exists>t calls solution LEI_traj.
           np_linspace 0 (of_int years) (years + 1) = Inr t \<and>
           odeint lib (rhs lib (make_params H0 V0 alpha0 opts) g) (H0, V0, alpha0) t = (calls, Inr solution) \<and>
           fst (replay lib (make_params H0 V0 alpha0 opts) calls g) = None \<and>
           collect (map (\<lambda>(H, V, alpha). calculate_LEI H V alpha PHI 0.1) solution) = Inr LEI_traj \<and>
           traj_time tr = t \<and>
           traj_H tr = map (\<lambda>(H, V, alpha). H) solution \<and>
           traj_V tr = map (\<lambda>(H, V, alpha). V) solution \<and>
           traj_alpha tr = map (\<lambda>(H, V, alpha). alpha) solution \<and>
           traj_LEI tr = LEI_traj \<and>
           traj_d_phi tr = map (\<lambda>(H, V, alpha). calculate_d_phi H V PHI) solution"
  using assms
  by (auto simp: simulate_evolution_def Let_def split: option.splits sum.splits prod.splits)

lemma simulate_evolution_Inl:
  assumes valid: "(0 \<le> H0 \<and> H0 \<le> 1) \<and> (0 \<le> V0 \<and> V0 \<le> 1) \<and> (0 \<le> alpha0 \<and> alpha0 \<le> 1)"
    and err: "fst (simulate_evolution lib H0 V0 alpha0 years opts g) = Inl e"
  shows "(\<exists>num. e = SamplesError num) \<or> (\<exists>s. e = SeedError s) \<or> (\<exists>msg. e = SolverError msg) \<or>
         (\<exists>name v. e = ValueError name v \<and> name \<in> {''H'', ''V'', ''alpha''} \<and> \<not> (0 \<le> v \<and> v \<le> 1))"
proof -
  from valid have chk: "check_unit_interval [(H0, ''H0''), (V0, ''V0''), (alpha0, ''alpha0'')] = None"
    by simp
  let ?p = "make_params H0 V0 alpha0 opts"
  show ?thesis
  proof (cases "np_linspace 0 (of_int years) (years + 1)")
    case (Inl e')
    with err chk have "e = e'" by (simp add: simulate_evolution_def)
    with Inl show ?thesis by (auto simp: np_linspace_def split: if_splits)
  next
    case grid: (Inr t)
    obtain calls outcome where run: "odeint lib (rhs lib ?p g) (H0, V0, alpha0) t = (calls, outcome)"
      by (cases "odeint lib (rhs lib ?p g) (H0, V0, alpha0) t")
    obtain r g' where rep: "replay lib ?p calls g = (r, g')"
      by (cases "replay lib ?p calls g")
    show ?thesis
    proof (cases r)
      case (Some e')
      with err chk grid run rep have "e = e'" by (simp add: simulate_evolution_def)
      with replay_error [of lib ?p calls g e'] rep Some show ?thesis by simp
    next
      case None
      show ?thesis
      proof (cases outcome)
        case (Inl msg)
        with err chk grid run rep None have "e = SolverError msg"
          by (simp add: simulate_evolution_def)
        then show ?thesis by blast
      next
        case (Inr solution)
        with err chk grid run rep None
        have "collect (map (\<lambda>(H, V, alpha). calculate_LEI H V alpha PHI 0.1) solution) = Inl e"
          by (simp add: simulate_evolution_def Let_def split: sum.splits)
        from LEI_rows_error [OF this] show ?thesis by blast
      qed
    qed
  qed
qed

lemma no_input_error_when_valid:
  assumes v: "(0 \<le> H0 \<and> H0 \<le> 1) \<and> (0 \<le> V0 \<and> V0 \<le> 1) \<and> (0 \<le> alpha0 \<and> alpha0 \<le> 1)"
  shows "\<not> (\<exists>name v. fst (simulate_evolution lib H0 V0 alpha0 years opts g) = Inl (ValueError name v) \<and>
         name \<in> {''H0'', ''V0'', ''alpha0''})"
proof
  assume "\<exists>name v. fst (simulate_evolution lib H0 V0 alpha0 years opts g) = Inl (ValueError name v) \<and>
       name \<in> {''H0'', ''V0'', ''alpha0''}"
  then obtain name v where err: "fst (simulate_evolution lib H0 V0 alpha0 years opts g) = Inl (ValueError name v)"
    and name: "name \<in> {''H0'', ''V0'', ''alpha0''}" by blast
  from simulate_evolution_Inl [OF v err] name show False by auto
qed

lemma simulate_evolution_state:
  assumes "0 \<le> H0 \<and> H0 \<le> 1" "0 \<le> V0 \<and> V0 \<le> 1" "0 \<le> alpha0 \<and> alpha0 \<le> 1"
    and "np_linspace 0 (of_int years) (years + 1) = Inr t"
    and "fst (odeint lib (rhs lib (make_params H0 V0 alpha0 opts) g) (H0, V0, alpha0) t) = calls"
  shows "snd (simulate_evolution lib H0 V0 alpha0 years opts g) =
           snd (replay lib (make_params H0 V0 alpha0 opts) calls g)"
proof -
  have chk: "check_unit_interval [(H0, ''H0''), (V0, ''V0''), (alpha0, ''alpha0'')] = None"
    using assms(1-3) by simp
  obtain outcome where run:
    "odeint lib (rhs lib (make_params H0 V0 alpha0 opts) g) (H0, V0, alpha0) t = (calls, outcome)"
    using assms(5) by (metis prod.collapse)
  obtain r g' where rep: "replay lib (make_params H0 V0 alpha0 opts) calls g = (r, g')"
    by (cases "replay lib (make_params H0 V0 alpha0 opts) calls g")
  show ?thesis
    using chk assms(4) run rep
    by (simp add: simulate_evolution_def Let_def split: sum.splits option.splits)
qed

lemma generator_after_run:
  assumes valid: "0 \<le> H0 \<and> H0 \<le> 1" "0 \<le> V0 \<and> V0 \<le> 1" "0 \<le> alpha0 \<and> alpha0 \<le> 1"
    and horizon: "0 \<le> years"
    and calls: "fst (odeint lib (rhs lib (make_params H0 V0 alpha0 opts) g)
                  (H0, V0, alpha0) (map real [0..<nat years + 1])) = calls"
    and accepted: "\<forall>(y, s) \<in> set calls. seed_accepted (call_seed (make_params H0 V0 alpha0 opts) s)"
    and nonempty: "calls \<noteq> []"
  shows "\<exists>noise. noise_draws lib (make_params H0 V0 alpha0 opts) (snd (last calls)) =
           Inr (noise, snd (simulate_evolution lib H0 V0 alpha0 years opts g))"
proof -
  from simulate_evolution_state [OF valid np_linspace_years [OF horizon] calls]
  have "snd (simulate_evolution lib H0 V0 alpha0 years opts g) =
          snd (replay lib (make_params H0 V0 alpha0 opts) calls g)" .
  with replay_accepted [OF accepted, of lib g] nonempty show ?thesis by simp
qed

subsection \<open>The concrete backend meets the solver's contract\<close>

lemma step_rows_length: "length (step_rows f y s rest) = Suc (length rest)"
  by (induction rest arbitrary: y s) simp_all

lemma step_rows_first: "step_rows f y s rest ! 0 = (y, s)"
  by (cases rest) simp_all

lemma step_backend_contract: "odeint_contract step_backend"
  unfolding odeint_contract_def
proof (intro conjI allI impI)
  fix f :: "state \<Rightarrow> real \<Rightarrow> state" and y0 :: state and t :: "real list"
  assume "t \<noteq> [] \<and> sorted t"
  then obtain s rest where t: "t = s # rest" by (cases t) auto
  show "\<exists>rows. snd (odeint step_backend f y0 t) = Inr rows \<and> length rows = length t \<and> rows ! 0 = y0"
    by (simp add: t step_backend_def step_odeint_def step_rows_length step_rows_first)
next
  fix f :: "state \<Rightarrow> real \<Rightarrow> state" and y0 :: state and s :: real
  show "fst (odeint step_backend f y0 [s]) = []"
    by (simp add: step_backend_def step_odeint_def)
qed

lemma contract_zero_horizon:
  assumes "odeint_contract lib"
  shows "odeint lib f y0 [s] = ([], Inr [y0])"
proof -
  have "[s] \<noteq> []" "sorted [s]" by simp_all
  from contract_rows [OF assms this] obtain rows
    where sol: "snd (odeint lib f y0 [s]) = Inr rows"
      and len: "length rows = length [s]" and first: "rows ! 0 = y0"
    by blast
  from len first have "rows = [y0]" by (cases rows) auto
  with sol contract_single [OF assms, of f y0 s] show ?thesis
    by (simp add: prod_eq_iff)
qed

lemma zero_horizon_returns:
  assumes contract: "odeint_contract lib"
    and valid: "0 \<le> H0 \<and> H0 \<le> 1" "0 \<le> V0 \<and> V0 \<le> 1" "0 \<le> alpha0 \<and> alpha0 \<le> 1"
  shows "\<exists>tr. fst (simulate_evolution lib H0 V0 alpha0 0 opts g) = Inr tr \<and>
           traj_d_phi tr = [calculate_d_phi H0 V0 PHI]"
proof -
  have grid: "np_linspace 0 (of_int 0) (0 + 1) = Inr [0]"
    by (simp add: np_linspace_def)
  note run = contract_zero_horizon [OF contract, of "rhs lib (make_params H0 V0 alpha0 opts) g" "(H0, V0, alpha0)" 0]
  have rep: "fst (replay lib (make_params H0 V0 alpha0 opts) [] g) = None" by simp
  from calculate_LEI_valid [OF valid] obtain lei
    where lei: "calculate_LEI H0 V0 alpha0 PHI 0.1 = Inr lei" ..
  from simulate_evolution_valid [OF valid grid run rep] lei
  show ?thesis by simp
qed

subsection \<open>The sampling loop\<close>


lemma run_batch_Cons_Inr:
  assumes "draw_initial lib HR VR AR g = ((H0, V0, alpha0), g1)"
    and "simulate_evolution lib H0 V0 alpha0 years
           (bind_kwargs (kw\<lparr>kw_noise_seed := Some (get_default (kw_noise_seed kw) 42 + i)\<rparr>)) g1 = (Inr result, g2)"
    and "run_batch lib years HR VR AR kw rest g2 = (ms, ws, g3)"
  shows "run_batch lib years HR VR AR kw (i # rest) g = (annotate result i H0 V0 alpha0 # ms, ws, g3)"
  using assms by (simp add: Let_def)

lemma run_batch_Cons_Inl:
  assumes "draw_initial lib HR VR AR g = ((H0, V0, alpha0), g1)"
    and "simulate_evolution lib H0 V0 alpha0 years
           (bind_kwargs (kw\<lparr>kw_noise_seed := Some (get_default (kw_noise_seed kw) 42 + i)\<rparr>)) g1 = (Inl e, g2)"
    and "run_batch lib years HR VR AR kw rest g2 = (ms, ws, g3)"
  shows "run_batch lib years HR VR AR kw (i # rest) g = (ms, (i, e) # ws, g3)"
  using assms by (simp add: Let_def)








subsection \<open>Rows of the unit-step solver\<close>

lemma step_rows_time: "k \<le> length rest \<Longrightarrow> snd (step_rows f y s rest ! k) = (s # rest) ! k"
proof (induction rest arbitrary: y s k)
  case Nil
  then show ?case by simp
next
  case (Cons s' rest)
  then show ?case by (cases k) simp_all
qed

lemma step_rows_Suc:
  "k < length rest \<Longrightarrow>
     fst (step_rows f y s rest ! Suc k) =
       advance (fst (step_rows f y s rest ! k)) ((s # rest) ! Suc k - (s # rest) ! k)
         (f (fst (step_rows f y s rest ! k)) ((s # rest) ! k))"
proof (induction rest arbitrary: y s k)
  case Nil
  then show ?case by simp
next
  case (Cons s' rest)
  show ?case
  proof (cases k)
    case 0
    then show ?thesis by (simp add: step_rows_first)
  next
    case (Suc j)
    with Cons.prems have "j < length rest" by simp
    from Cons.IH [OF this] Suc show ?thesis by simp
  qed
qed

lemma grid_Cons: "map real [0..<n + 1] = 0 # map real [1..<n + 1]"
  by (simp add: upt_rec del: upt_Suc)

subsection \<open>The range check on the rows of the solution\<close>

lemma calculate_LEI_names:
  assumes "calculate_LEI H V alpha PHI 0.1 = Inl e"
  shows "(e = ValueError ''H'' H \<and> \<not> (0 \<le> H \<and> H \<le> 1)) \<or>
         (e = ValueError ''V'' V \<and> \<not> (0 \<le> V \<and> V \<le> 1)) \<or>
         (e = ValueError ''alpha'' alpha \<and> \<not> (0 \<le> alpha \<and> alpha \<le> 1))"
proof (cases "check_unit_interval [(H, ''H''), (V, ''V''), (alpha, ''alpha'')]")
  case None
  have "\<bar>H / V - PHI\<bar> + 0.1 \<noteq> 0" by linarith
  with None assms show ?thesis
    by (simp add: calculate_LEI_def Let_def split: if_splits)
next
  case (Some e')
  with assms have "e' = e" by (simp add: calculate_LEI_def)
  with check_fields_Some [OF Some] show ?thesis by simp
qed

lemma calculate_LEI_outside:
  assumes "\<not> ((0 \<le> H \<and> H \<le> 1) \<and> (0 \<le> V \<and> V \<le> 1) \<and> (0 \<le> alpha \<and> alpha \<le> 1))"
  shows "\<exists>e. calculate_LEI H V alpha PHI 0.1 = Inl e"
proof (cases "calculate_LEI H V alpha PHI 0.1")
  case (Inl e)
  then show ?thesis by blast
next
  case (Inr lei)
  with assms show ?thesis
    by (simp add: calculate_LEI_def split: if_splits)
qed

lemma collect_all_Inr: "\<forall>x \<in> set xs. \<exists>v. x = Inr v \<Longrightarrow> \<exists>vs. collect xs = Inr vs"
proof (induction xs rule: collect.induct)
  case 1
  show ?case by simp
next
  case (2 e rest)
  then show ?case by simp
next
  case (3 v rest)
  then obtain vs where "collect rest = Inr vs" by auto
  then show ?case by simp
qed

lemma collect_some_Inl: "\<exists>e. Inl e \<in> set xs \<Longrightarrow> \<exists>e. collect xs = Inl e"
proof (induction xs rule: collect.induct)
  case 1
  then show ?case by simp
next
  case (2 e rest)
  show ?case by simp
next
  case (3 v rest)
  then obtain e where "collect rest = Inl e" by auto
  then show ?case by simp
qed

lemma LEI_rows_inside:
  assumes "\<forall>(H, V, alpha) \<in> set solution. (0 \<le> H \<and> H \<le> 1) \<and> (0 \<le> V \<and> V \<le> 1) \<and> (0 \<le> alpha \<and> alpha \<le> 1)"
  shows "\<exists>LEI_traj. collect (map (\<lambda>(H, V, alpha). calculate_LEI H V alpha PHI 0.1) solution) = Inr LEI_traj"
proof (rule collect_all_Inr, rule ballI)
  fix x assume "x \<in> set (map (\<lambda>(H, V, alpha). calculate_LEI H V alpha PHI 0.1) solution)"
  then obtain H V alpha where row: "(H, V, alpha) \<in> set solution"
    and x: "x = calculate_LEI H V alpha PHI 0.1" by auto
  from assms row have "(0 \<le> H \<and> H \<le> 1) \<and> (0 \<le> V \<and> V \<le> 1) \<and> (0 \<le> alpha \<and> alpha \<le> 1)" by blast
  then have "\<exists>lei. calculate_LEI H V alpha PHI 0.1 = Inr lei"
    by (intro calculate_LEI_valid) simp_all
  with x show "\<exists>v. x = Inr v" by simp
qed

lemma LEI_rows_outside:
  assumes "\<not> (\<forall>(H, V, alpha) \<in> set solution. (0 \<le> H \<and> H \<le> 1) \<and> (0 \<le> V \<and> V \<le> 1) \<and> (0 \<le> alpha \<and> alpha \<le> 1))"
  shows "\<exists>name v. collect (map (\<lambda>(H, V, alpha). calculate_LEI H V alpha PHI 0.1) solution) = Inl (ValueError name v) \<and>
           \<not> (0 \<le> v \<and> v \<le> 1) \<and>
           (\<exists>(H, V, alpha) \<in> set solution. (name, v) \<in> {(''H'', H), (''V'', V), (''alpha'', alpha)})"
proof -
  from assms obtain H V alpha where row: "(H, V, alpha) \<in> set solution"
    and out: "\<not> ((0 \<le> H \<and> H \<le> 1) \<and> (0 \<le> V \<and> V \<le> 1) \<and> (0 \<le> alpha \<and> alpha \<le> 1))" by blast
  from calculate_LEI_outside [OF out] obtain e0 where "calculate_LEI H V alpha PHI 0.1 = Inl e0" ..
  with row have "Inl e0 \<in> set (map (\<lambda>(H, V, alpha). calculate_LEI H V alpha PHI 0.1) solution)"
    by force
  then have "\<exists>e. Inl e \<in> set (map (\<lambda>(H, V, alpha). calculate_LEI H V alpha PHI 0.1) solution)" ..
  from collect_some_Inl [OF this] obtain e
    where e: "collect (map (\<lambda>(H, V, alpha). calculate_LEI H V alpha PHI 0.1) solution) = Inl e" ..
  from collect_error [OF e] obtain H' V' alpha' where row': "(H', V', alpha') \<in> set solution"
    and lei: "calculate_LEI H' V' alpha' PHI 0.1 = Inl e" by auto
  from calculate_LEI_names [OF lei] row' e show ?thesis by blast
qed

subsection \<open>Two runs of the concrete backend\<close>

lemma grid_one: "map real [0..<nat 1 + 1] = [0, 1]"
  by (simp add: upt_rec numeral_eq_Suc)

lemma default_noise_at_zero:
  assumes "noise_seed p = Some 42"
  shows "noise_draws step_backend p 0 = Inr ((1 / 4, - (3 / 8), 1 / 2), 15)"
  by (simp add: noise_draws_def np_random_seed_def seed_accepted_def call_seed_def assms
      get_default_def py_int_def step_backend_def grid_normal_def)

lemma origin_run:
  "odeint step_backend (rhs step_backend (make_params 0 0 0 default_options) g) (0, 0, 0) [0, 1] =
     ([((0, 0, 0), 0)], Inr [(0, 0, 0), (1 / 400, - (3 / 800), 1 / 400)])"
proof -
  define p where "p = make_params 0 0 0 default_options"
  have entries: "noise_seed p = Some 42" "H_eq p = 0" "V_eq p = 0"
    "sigma_H p = Some (1 / 100)" "sigma_V p = Some (1 / 100)" "sigma_alpha p = Some (1 / 200)"
    by (simp_all add: p_def make_params_def default_options_def calculate_equilibrium_def
        equilibrium_unclipped_def clip_def Let_def)
  have "rhs step_backend p g (0, 0, 0) 0 = (1 / 400, - (3 / 800), 1 / 400)"
    by (simp add: rhs_def ode_system_def default_noise_at_zero [OF entries(1)] entries get_default_def
        selection_pressure_def)
  then show ?thesis
    unfolding p_def [symmetric]
    by (simp add: step_backend_def step_odeint_def advance_def)
qed

lemma drift_free_run:
  "odeint step_backend (rhs step_backend (make_params (7 / 10) (3 / 5) (1 / 2) drift_free_options) g)
       (7 / 10, 3 / 5, 1 / 2) [0, 1] =
     ([((7 / 10, 3 / 5, 1 / 2), 0)],
      Inr [(7 / 10, 3 / 5, 1 / 2), (281 / 400, 477 / 800, 201 / 400)])"
proof -
  define p where "p = make_params (7 / 10) (3 / 5) (1 / 2) drift_free_options"
  have entries: "noise_seed p = Some 42" "gamma_H p = Some 0" "gamma_V p = Some 0" "beta p = Some 0"
    "sigma_H p = Some (1 / 100)" "sigma_V p = Some (1 / 100)" "sigma_alpha p = Some (1 / 200)"
    by (simp_all add: p_def make_params_def drift_free_options_def default_options_def
        split: prod.splits)
  have "rhs step_backend p g (7 / 10, 3 / 5, 1 / 2) 0 = (1 / 400, - (3 / 800), 1 / 400)"
    by (simp add: rhs_def ode_system_def default_noise_at_zero [OF entries(1)] entries get_default_def)
  then show ?thesis
    unfolding p_def [symmetric]
    by (simp add: step_backend_def step_odeint_def advance_def)
qed

lemma default_seed_accepted_at_zero:
  "opt_noise_seed opts = 42 \<Longrightarrow> seed_accepted (call_seed (make_params H0 V0 alpha0 opts) 0)"
  by (simp add: seed_accepted_def call_seed_def make_params_def get_default_def py_int_def
      split: prod.splits)

subsection \<open>The unit-step solver produces the recurrence of the specification\<close>

lemma replay_None_calls:
  "fst (replay lib p calls g) = None \<Longrightarrow> (y, s) \<in> set calls \<Longrightarrow>
     \<exists>dy g'. ode_system lib y s p g0 = Inr (dy, g')"
proof (induction calls arbitrary: g)
  case Nil
  then show ?case by simp
next
  case (Cons c calls)
  obtain y' s' where c: "c = (y', s')" by (cases c)
  show ?case
  proof (cases "ode_system lib y' s' p g")
    case (Inl e)
    with Cons.prems(1) c show ?thesis by simp
  next
    case (Inr r)
    obtain dy g' where r: "r = (dy, g')" by (cases r)
    with Inr Cons.prems(1) c have rest: "fst (replay lib p calls g') = None" by simp
    show ?thesis
    proof (cases "(y, s) = (y', s')")
      case True
      with Inr r ode_system_entry_state [of lib y' s' p g0 g]
      have "ode_system lib y s p g0 = Inr (dy, g')" by simp
      then show ?thesis by blast
    next
      case False
      with Cons.prems(2) c have "(y, s) \<in> set calls" by auto
      from Cons.IH [OF rest this] show ?thesis .
    qed
  qed
qed

lemma rhs_value: "ode_system lib y s p g' = Inr (dy, g'') \<Longrightarrow> rhs lib p g y s = dy"
  using ode_system_entry_state [of lib y s p g g'] by (simp add: rhs_def)

lemma unit_step_follows_euler_maruyama:
  assumes horizon: "0 \<le> years"
    and res: "fst (simulate_evolution lib H0 V0 alpha0 years opts g) = Inr tr"
    and solver: "odeint lib = step_odeint"
  shows "follows_euler_maruyama lib (make_params H0 V0 alpha0 opts) g tr years"
proof -
  define p where "p = make_params H0 V0 alpha0 opts"
  define f where "f = rhs lib p g"
  define rest where "rest = map real [1..<nat years + 1]"
  define steps where "steps = step_rows f (H0, V0, alpha0) 0 rest"
  from simulate_evolution_Inr [OF res] np_linspace_years [OF horizon] obtain calls rows
    where run: "odeint lib f (H0, V0, alpha0) (map real [0..<nat years + 1]) = (calls, Inr rows)"
      and rep: "fst (replay lib p calls g) = None"
      and H: "traj_H tr = map (\<lambda>(H, V, alpha). H) rows"
      and V: "traj_V tr = map (\<lambda>(H, V, alpha). V) rows"
      and A: "traj_alpha tr = map (\<lambda>(H, V, alpha). alpha) rows"
    unfolding f_def p_def by auto
  from run have rows: "rows = map fst steps" and calls: "calls = butlast steps"
    unfolding solver grid_Cons by (simp_all add: step_odeint_def steps_def rest_def del: upt_Suc)
  have len: "length steps = nat years + 1"
    by (simp add: steps_def step_rows_length rest_def del: upt_Suc)
  have row: "(traj_H tr ! j, traj_V tr ! j, traj_alpha tr ! j) = fst (steps ! j)" if "j < nat years + 1" for j
    using that len by (simp add: H V A rows split: prod.splits)
  have "\<exists>dy g'.
          ode_system lib (traj_H tr ! k, traj_V tr ! k, traj_alpha tr ! k) (real k) p g = Inr (dy, g') \<and>
          (traj_H tr ! Suc k, traj_V tr ! Suc k, traj_alpha tr ! Suc k) =
            advance (traj_H tr ! k, traj_V tr ! k, traj_alpha tr ! k) 1 dy"
    if k: "k < nat years" for k
  proof -
    from k have kl: "k < length rest" by (simp add: rest_def del: upt_Suc)
    have t0: "(0 # rest) ! k = real k"
      using k by (cases k) (simp_all add: rest_def del: upt_Suc)
    have t1: "(0 # rest) ! Suc k = real k + 1"
      using k by (simp add: rest_def del: upt_Suc)
    from kl have "k \<le> length rest" by simp
    from step_rows_time [OF this, of f "(H0, V0, alpha0)" 0]
    have time: "snd (steps ! k) = real k"
      unfolding steps_def t0 .
    from k len have "k < length (butlast steps)" by simp
    then have "butlast steps ! k \<in> set (butlast steps)" by (rule nth_mem)
    moreover from k len have "butlast steps ! k = steps ! k" by (simp add: nth_butlast)
    ultimately have "(fst (steps ! k), real k) \<in> set calls"
      unfolding calls using time by (metis prod.collapse)
    from replay_None_calls [OF rep this, of g] obtain dy g'
      where ode: "ode_system lib (fst (steps ! k)) (real k) p g = Inr (dy, g')" by blast
    from rhs_value [OF ode, of g] have "f (fst (steps ! k)) (real k) = dy"
      by (simp add: f_def)
    moreover from step_rows_Suc [OF kl, of f "(H0, V0, alpha0)" 0]
    have "fst (steps ! Suc k) = advance (fst (steps ! k)) 1 (f (fst (steps ! k)) (real k))"
      unfolding steps_def t0 t1 by simp
    ultimately have "fst (steps ! Suc k) = advance (fst (steps ! k)) 1 dy" by simp
    with row [of k] row [of "Suc k"] k ode show ?thesis
      by simp
  qed
  then show ?thesis
    unfolding follows_euler_maruyama_def p_def by blast
qed

subsection \<open>The noise-free system and its solution\<close>

lemma exact_flow_initial: "exact_flow p y0 0 = y0"
  by (cases y0) (simp add: exact_flow_def)

lemma exact_flow_solves:
  assumes quiet: "sigma_H p = Some 0" "sigma_V p = Some 0" "sigma_alpha p = Some 0" "beta p = Some 0"
    and returns: "ode_system lib (exact_flow p y0 s) s p g = Inr (dy, g')"
  shows "((\<lambda>r. fst (exact_flow p y0 r)) has_real_derivative fst dy) (at s) \<and>
         ((\<lambda>r. fst (snd (exact_flow p y0 r))) has_real_derivative fst (snd dy)) (at s) \<and>
         ((\<lambda>r. snd (snd (exact_flow p y0 r))) has_real_derivative snd (snd dy)) (at s)"
proof -
  obtain H0 V0 alpha0 where y0: "y0 = (H0, V0, alpha0)" by (cases y0)
  from returns have dy: "dy =
      ((H0 - H_eq p) * (exp (- get_default (gamma_H p) 0.05 * s) * (- get_default (gamma_H p) 0.05)),
       (V0 - V_eq p) * (exp (- get_default (gamma_V p) 0.08 * s) * (- get_default (gamma_V p) 0.08)),
       0)"
    using quiet
    by (auto simp: ode_system_def Let_def get_default_def exact_flow_def y0 algebra_simps
        split: sum.splits prod.splits)
  have "((\<lambda>r. H_eq p + (H0 - H_eq p) * exp (- get_default (gamma_H p) 0.05 * r)) has_real_derivative
      (H0 - H_eq p) * (exp (- get_default (gamma_H p) 0.05 * s) * (- get_default (gamma_H p) 0.05))) (at s)"
    by (auto intro!: derivative_eq_intros)
  moreover have "((\<lambda>r. V_eq p + (V0 - V_eq p) * exp (- get_default (gamma_V p) 0.08 * r)) has_real_derivative
      (V0 - V_eq p) * (exp (- get_default (gamma_V p) 0.08 * s) * (- get_default (gamma_V p) 0.08))) (at s)"
    by (auto intro!: derivative_eq_intros)
  moreover have "((\<lambda>r. alpha0) has_real_derivative 0) (at s)" by simp
  ultimately show ?thesis
    unfolding dy y0 by (simp add: exact_flow_def)
qed

lemma linear_ode_unique:
  assumes ode: "\<And>s. (y has_real_derivative c * (h - y s)) (at s)" and init: "y 0 = y0"
  shows "y s = h + (y0 - h) * exp (- c * s)"
proof -
  define z where "z = (\<lambda>s. (y s - h) * exp (c * s))"
  have "(z has_real_derivative 0) (at r)" for r
  proof -
    have "(z has_real_derivative (c * (h - y r) * exp (c * r) + (y r - h) * (exp (c * r) * c))) (at r)"
      unfolding z_def by (auto intro!: derivative_eq_intros ode)
    moreover have "c * (h - y r) * exp (c * r) + (y r - h) * (exp (c * r) * c) = 0"
      by (simp add: algebra_simps)
    ultimately show ?thesis by simp
  qed
  then have "z s = z 0"
    by (intro DERIV_isconst_all) simp
  then have "(y s - h) * exp (c * s) = y0 - h"
    by (simp add: z_def init)
  then have "(y s - h) * exp (c * s) * exp (- c * s) = (y0 - h) * exp (- c * s)"
    by simp
  then have "y s - h = (y0 - h) * exp (- c * s)"
    by (simp add: exp_minus field_simps)
  then show ?thesis by simp
qed

lemma flow_backend_contract: "odeint_contract (flow_backend p)"
  unfolding odeint_contract_def
proof (intro conjI allI impI)
  fix f :: "state \<Rightarrow> real \<Rightarrow> state" and y0 :: state and t :: "real list"
  assume "t \<noteq> [] \<and> sorted t"
  then have "0 < length t" "t ! 0 = hd t" by (simp_all add: hd_conv_nth)
  then show "\<exists>rows. snd (odeint (flow_backend p) f y0 t) = Inr rows \<and> length rows = length t \<and> rows ! 0 = y0"
    by (simp add: flow_backend_def flow_odeint_def exact_flow_initial)
next
  fix f :: "state \<Rightarrow> real \<Rightarrow> state" and y0 :: state and s :: real
  show "fst (odeint (flow_backend p) f y0 [s]) = []"
    by (simp add: flow_backend_def flow_odeint_def)
qed

lemma sqrt5_bounds: "sqrt 5 \<le> 23 / 10"
  by (rule real_le_lsqrt) (simp_all add: power2_eq_square)

lemma PHI_bounds: "1 < PHI \<and> PHI \<le> 33 / 20"
proof -
  have "1 \<le> sqrt 5" by (rule real_le_rsqrt) simp
  with sqrt5_bounds show ?thesis by (simp add: PHI_def)
qed

lemma exp_lower: "9501 / 10000 \<le> exp (- (1 / 20 :: real))"
proof -
  have "exp (1 / 20 :: real) \<le> 1 + 1 / 20 + (1 / 20)\<^sup>2"
    by (rule exp_bound) simp_all
  then have up: "exp (1 / 20 :: real) \<le> 421 / 400"
    by (simp add: power2_eq_square)
  have pos: "0 < exp (1 / 20 :: real)" by simp
  have "inverse (421 / 400) \<le> inverse (exp (1 / 20 :: real))"
    using up pos by (simp only: le_imp_inverse_le)
  then show ?thesis by (simp add: exp_minus)
qed

lemma H_eq_example: "H_eq (make_params (9 / 10) (3 / 10) (4 / 10) opts) \<le> 3 / 4"
proof -
  define x where "x = PHI * ((9 / 10 + 3 / 10) / (PHI + 1))"
  from PHI_bounds have "x \<le> 3 / 4"
    by (simp add: x_def field_simps)
  then have "clip x 0 1 \<le> 3 / 4"
    by (simp add: clip_def)
  moreover have "H_eq (make_params (9 / 10) (3 / 10) (4 / 10) opts) = clip x 0 1"
    by (simp add: make_params_def calculate_equilibrium_def equilibrium_unclipped_def Let_def x_def)
  ultimately show ?thesis by simp
qed

lemma exact_flow_differs_from_euler_step:
  assumes "h \<le> 3 / 4"
  shows "1 / 100000 < \<bar>(9 / 10 + 1 / 20 * (h - 9 / 10)) - (h + (9 / 10 - h) * exp (- (1 / 20 :: real)))\<bar>"
proof -
  define e where "e = exp (- (1 / 20 :: real))"
  have e: "1 / 10000 \<le> e - 19 / 20"
    using exp_lower by (simp add: e_def)
  from assms have h: "3 / 20 \<le> 9 / 10 - h" by simp
  have "3 / 20 * (1 / 10000) \<le> (9 / 10 - h) * (e - 19 / 20)"
    using h e by (intro mult_mono) simp_all
  moreover have "(9 / 10 + 1 / 20 * (h - 9 / 10)) - (h + (9 / 10 - h) * e) = - ((9 / 10 - h) * (e - 19 / 20))"
    by (simp add: field_simps)
  ultimately show ?thesis
    unfolding e_def [symmetric] by simp
qed

lemma equilibrium_unit:
  "0 \<le> H_eq (make_params H0 V0 alpha0 opts) \<and> H_eq (make_params H0 V0 alpha0 opts) \<le> 1 \<and>
   0 \<le> V_eq (make_params H0 V0 alpha0 opts) \<and> V_eq (make_params H0 V0 alpha0 opts) \<le> 1"
  by (simp add: make_params_def calculate_equilibrium_def clip_def split: prod.splits)

lemma relaxation_unit:
  fixes a b e :: real
  assumes a: "0 \<le> a \<and> a \<le> 1" and b: "0 \<le> b \<and> b \<le> 1" and e: "0 < e \<and> e \<le> 1"
  shows "0 \<le> a + (b - a) * e \<and> a + (b - a) * e \<le> 1"
proof -
  have eq: "a + (b - a) * e = a * (1 - e) + b * e" by (simp add: algebra_simps)
  have "0 \<le> a * (1 - e)" using a e by (intro mult_nonneg_nonneg) simp_all
  moreover have "0 \<le> b * e" using b e by (intro mult_nonneg_nonneg) simp_all
  ultimately have lo: "0 \<le> a * (1 - e) + b * e" by linarith
  have "a * (1 - e) \<le> 1 * (1 - e)" using a e by (intro mult_right_mono) simp_all
  then have up1: "a * (1 - e) \<le> 1 - e" by simp
  have "b * e \<le> 1 * e" using b e by (intro mult_right_mono) simp_all
  then have up2: "b * e \<le> e" by simp
  from up1 up2 have "a * (1 - e) + b * e \<le> 1" by linarith
  with lo show ?thesis unfolding eq by simp
qed

subsection \<open>The right-hand side in terms of the options\<close>

lemma ode_system_formula:
  assumes "ode_system lib (H, V, alpha) s (make_params H0 V0 alpha0 opts) g = Inr (dy, g')"
  shows "\<exists>noise_H noise_V noise_alpha.
           noise_draws lib (make_params H0 V0 alpha0 opts) s = Inr ((noise_H, noise_V, noise_alpha), g') \<and>
           dy = (opt_gamma_H opts * (H_eq (make_params H0 V0 alpha0 opts) - H) + opt_sigma_H opts * noise_H,
                 opt_gamma_V opts * (V_eq (make_params H0 V0 alpha0 opts) - V) + opt_sigma_V opts * noise_V,
                 opt_beta opts * (alpha_eq (make_params H0 V0 alpha0 opts) - alpha) * selection_pressure H V
                   + opt_sigma_alpha opts * noise_alpha)"
proof -
  have entries: "gamma_H (make_params H0 V0 alpha0 opts) = Some (opt_gamma_H opts)"
    "gamma_V (make_params H0 V0 alpha0 opts) = Some (opt_gamma_V opts)"
    "beta (make_params H0 V0 alpha0 opts) = Some (opt_beta opts)"
    "sigma_H (make_params H0 V0 alpha0 opts) = Some (opt_sigma_H opts)"
    "sigma_V (make_params H0 V0 alpha0 opts) = Some (opt_sigma_V opts)"
    "sigma_alpha (make_params H0 V0 alpha0 opts) = Some (opt_sigma_alpha opts)"
    by (simp_all add: make_params_def split: prod.splits)
  from assms show ?thesis
    unfolding ode_system_def entries
    by (auto simp: get_default_def Let_def split: sum.splits prod.splits)
qed

subsection \<open>Solvers close to the solution, and a rejected seed\<close>

lemma first_sample:
  assumes contract: "odeint_contract lib"
    and horizon: "0 \<le> years"
    and res: "fst (simulate_evolution lib H0 V0 alpha0 years opts g) = Inr tr"
  shows "(traj_H tr ! 0, traj_V tr ! 0, traj_alpha tr ! 0) = (H0, V0, alpha0)"
proof -
  define t where "t = map real [0..<nat years + 1]"
  from simulate_evolution_Inr [OF res] np_linspace_years [OF horizon] obtain calls rows
    where run: "odeint lib (rhs lib (make_params H0 V0 alpha0 opts) g) (H0, V0, alpha0) t = (calls, Inr rows)"
      and H: "traj_H tr = map (\<lambda>(H, V, alpha). H) rows"
      and V: "traj_V tr = map (\<lambda>(H, V, alpha). V) rows"
      and A: "traj_alpha tr = map (\<lambda>(H, V, alpha). alpha) rows"
    unfolding t_def by auto
  have "t \<noteq> []" "sorted t" by (simp_all add: t_def sorted_grid del: upt_Suc)
  from contract_rows [OF contract this, of "rhs lib (make_params H0 V0 alpha0 opts) g" "(H0, V0, alpha0)"] run
  have len: "length rows = length t" and first: "rows ! 0 = (H0, V0, alpha0)" by simp_all
  have "0 < length rows" unfolding len by (simp add: t_def)
  with first H V A show ?thesis by simp
qed

text \<open>
  A solver need not return the solution itself for the recurrence to fail: it fails
  for every solver that meets the contract and returns \<open>H(1)\<close> within \<open>10\<^sup>-\<^sup>5\<close> of
  the solution (\<^verbatim>\<open>odeint\<close> integrates to a relative tolerance near \<open>1.5 * 10\<^sup>-\<^sup>8\<close> by
  default).
\<close>

lemma accurate_solver_is_not_euler:
  assumes contract: "odeint_contract lib"
    and res: "fst (simulate_evolution lib (9 / 10) (3 / 10) (4 / 10) 1 quiet_options g) = Inr tr"
    and close: "\<bar>traj_H tr ! 1 -
                 fst (exact_flow (make_params (9 / 10) (3 / 10) (4 / 10) quiet_options) (9 / 10, 3 / 10, 4 / 10) 1)\<bar>
               \<le> 1 / 100000"
  shows "\<not> follows_euler_maruyama lib (make_params (9 / 10) (3 / 10) (4 / 10) quiet_options) g tr 1"
proof
  define p where "p = make_params (9 / 10) (3 / 10) (4 / 10) quiet_options"
  assume "follows_euler_maruyama lib (make_params (9 / 10) (3 / 10) (4 / 10) quiet_options) g tr 1"
  then obtain dy g' where ode: "ode_system lib (traj_H tr ! 0, traj_V tr ! 0, traj_alpha tr ! 0) 0 p g = Inr (dy, g')"
    and step: "(traj_H tr ! Suc 0, traj_V tr ! Suc 0, traj_alpha tr ! Suc 0) =
        advance (traj_H tr ! 0, traj_V tr ! 0, traj_alpha tr ! 0) 1 dy"
    unfolding follows_euler_maruyama_def p_def by auto
  have horizon: "(0::int) \<le> 1" by simp
  from first_sample [OF contract horizon res]
  have start: "(traj_H tr ! 0, traj_V tr ! 0, traj_alpha tr ! 0) = (9 / 10, 3 / 10, 4 / 10)" .
  from ode_system_formula [OF ode [unfolded p_def start]]
  have "fst dy = 1 / 20 * (H_eq p - 9 / 10)"
    by (auto simp: p_def quiet_options_def default_options_def)
  with step have euler: "traj_H tr ! 1 = 9 / 10 + 1 / 20 * (H_eq p - 9 / 10)"
    unfolding start by (cases dy) (simp add: advance_def)
  have "gamma_H p = Some (1 / 20)"
    by (simp add: p_def make_params_def quiet_options_def default_options_def split: prod.splits)
  then have flow: "fst (exact_flow p (9 / 10, 3 / 10, 4 / 10) 1) = H_eq p + (9 / 10 - H_eq p) * exp (- (1 / 20))"
    by (simp add: exact_flow_def get_default_def)
  have "1 / 100000 <
      \<bar>(9 / 10 + 1 / 20 * (H_eq p - 9 / 10)) - (H_eq p + (9 / 10 - H_eq p) * exp (- (1 / 20)))\<bar>"
    unfolding p_def by (rule exact_flow_differs_from_euler_step [OF H_eq_example])
  with close [folded p_def] show False
    unfolding euler flow by simp
qed

text \<open>
  The exception of line 134 is an outcome of \<^verbatim>\<open>simulate_evolution\<close>: with the seed
  \<open>2\<^sup>3\<^sup>2 - 1\<close> and the unit-step solver, the evaluation at time 1 reseeds with
  \<open>2\<^sup>3\<^sup>2 + 999\<close>.
\<close>

lemma seed_rejection_example:
  "fst (simulate_evolution step_backend (7 / 10) (3 / 5) (1 / 2) 2
          (default_options\<lparr>opt_noise_seed := 4294967295\<rparr>) 0) = Inl (SeedError 4294968295)"
proof -
  define p where "p = make_params (7 / 10) (3 / 5) (1 / 2) (default_options\<lparr>opt_noise_seed := 4294967295\<rparr>)"
  have seed: "noise_seed p = Some 4294967295"
    by (simp add: p_def make_params_def split: prod.splits)
  have grid: "np_linspace 0 (of_int 2) (2 + 1) = Inr [0, 1, 2]"
    using np_linspace_years [of 2] by (simp add: upt_rec numeral_eq_Suc)
  have first: "\<exists>dy g'. ode_system step_backend y 0 p g = Inr (dy, g')" for y g
    by (rule ode_system_accepted) (simp add: seed_accepted_def call_seed_def seed get_default_def py_int_def)
  have second: "ode_system step_backend y 1 p g = Inl (SeedError 4294968295)" for y g
    by (cases y)
      (simp add: ode_system_def noise_draws_def np_random_seed_def seed_accepted_def call_seed_def seed
        get_default_def py_int_def)
  obtain y1 where calls: "fst (odeint step_backend (rhs step_backend p 0) (7 / 10, 3 / 5, 1 / 2) [0, 1, 2]) =
      [((7 / 10, 3 / 5, 1 / 2), 0), (y1, 1)]"
    by (simp add: step_backend_def step_odeint_def)
  obtain outcome where run: "odeint step_backend (rhs step_backend p 0) (7 / 10, 3 / 5, 1 / 2) [0, 1, 2] =
      ([((7 / 10, 3 / 5, 1 / 2), 0), (y1, 1)], outcome)"
    using calls by (metis prod.collapse)
  from first [of "(7 / 10, 3 / 5, 1 / 2)" 0] obtain dy g'
    where f: "ode_system step_backend (7 / 10, 3 / 5, 1 / 2) 0 p 0 = Inr (dy, g')" by blast
  have rep: "replay step_backend p [((7 / 10, 3 / 5, 1 / 2), 0), (y1, 1)] 0 = (Some (SeedError 4294968295), g')"
    by (simp add: f second)
  show ?thesis
    using grid run [unfolded p_def] rep [unfolded p_def]
    by (simp add: simulate_evolution_def Let_def)
qed

section \<open>The equilibrium solver\<close>

text \<open>
  Claim C2. For every initial state with \<open>H0 + V0 > 0\<close> and every positive target
  ratio, the targets before clipping are \<open>V* = (H0 + V0) / (ratio + 1)\<close> and
  \<open>H* = ratio * V*\<close>, and their quotient \<open>H* / V*\<close> is exactly the target ratio;
  \<open>calculate_equilibrium\<close> returns these values clipped to \<open>[0, 1]\<close>.
\<close>

theorem equilibrium_ratio_before_clipping:
  assumes "0 < H0 + V0" and "0 < ratio"
  shows "case equilibrium_unclipped H0 V0 alpha0 ratio of
           (Hs, Vs, cs) \<Rightarrow>
             Vs = (H0 + V0) / (ratio + 1) \<and> Hs = ratio * Vs \<and> Hs / Vs = ratio \<and>
             calculate_equilibrium H0 V0 alpha0 ratio = (clip Hs 0 1, clip Vs 0 1, clip cs 0 1)"
proof -
  have "(H0 + V0) / (ratio + 1) \<noteq> 0"
    using assms by simp
  then show ?thesis
    by (simp add: equilibrium_unclipped_def calculate_equilibrium_def Let_def)
qed

theorem equilibrium_ratio_before_clipping_witness:
  "(0::real) < 0.65 + 0.55 \<and> (0::real) < 2 \<and>
   (case equilibrium_unclipped 0.65 0.55 0.45 2 of
      (Hs, Vs, cs) \<Rightarrow>
        Vs = (0.65 + 0.55) / (2 + 1) \<and> Hs = 2 * Vs \<and> Hs / Vs = 2 \<and>
        calculate_equilibrium 0.65 0.55 0.45 2 = (clip Hs 0 1, clip Vs 0 1, clip cs 0 1))"
  using equilibrium_ratio_before_clipping [of "0.65" "0.55" 2 "0.45"] by simp

section \<open>The selection pressure\<close>

text \<open>
  Claim C10. For every state \<open>(H, V, alpha)\<close>, also with \<open>V \<le> 0\<close>, the selection
  pressure that scales the drift of \<open>alpha\<close> lies in \<open>[0, 1]\<close>: it is
  \<open>exp (- \<bar>H / V - PHI\<bar>)\<close> when \<open>V > 0\<close> and \<open>0\<close> when \<open>V \<le> 0\<close>, so the quotient
  \<open>H / V\<close> is only formed for a positive \<open>V\<close>. When the reseeding of the call succeeds,
  \<open>ode_system\<close> returns, and the third component of its value is the growth term scaled
  by this factor plus the noise term; otherwise the call raises the exception of the
  reseeding, whatever the state.
\<close>

theorem selection_pressure_unit_interval:
  "0 \<le> selection_pressure H V \<and> selection_pressure H V \<le> 1 \<and>
   (0 < V \<longrightarrow> selection_pressure H V = exp (- \<bar>H / V - PHI\<bar>)) \<and>
   (V \<le> 0 \<longrightarrow> selection_pressure H V = 0) \<and>
   (case noise_draws lib p t of
      Inl e \<Rightarrow> ode_system lib (H, V, alpha) t p g = Inl e
    | Inr (noise, g') \<Rightarrow>
        (\<exists>dH dV.
           ode_system lib (H, V, alpha) t p g =
             Inr ((dH, dV,
                   get_default (beta p) 0.015 * (alpha_eq p - alpha) * selection_pressure H V
                     + get_default (sigma_alpha p) 0.005 * snd (snd noise)), g')))"
proof -
  have "0 \<le> selection_pressure H V \<and> selection_pressure H V \<le> 1 \<and>
      (0 < V \<longrightarrow> selection_pressure H V = exp (- \<bar>H / V - PHI\<bar>)) \<and>
      (V \<le> 0 \<longrightarrow> selection_pressure H V = 0)"
    by (auto simp: selection_pressure_def Let_def)
  moreover have "case noise_draws lib p t of
      Inl e \<Rightarrow> ode_system lib (H, V, alpha) t p g = Inl e
    | Inr (noise, g') \<Rightarrow>
        (\<exists>dH dV.
           ode_system lib (H, V, alpha) t p g =
             Inr ((dH, dV,
                   get_default (beta p) 0.015 * (alpha_eq p - alpha) * selection_pressure H V
                     + get_default (sigma_alpha p) 0.005 * snd (snd noise)), g'))"
    by (simp add: ode_system_def Let_def split: sum.splits prod.splits)
  ultimately show ?thesis by blast
qed

theorem selection_pressure_unit_interval_witness:
  "(0::real) < 2 \<and> selection_pressure 1 2 = exp (- \<bar>1 / 2 - PHI\<bar>) \<and>
   0 \<le> selection_pressure 1 2 \<and> selection_pressure 1 2 \<le> 1 \<and>
   (-1::real) \<le> 0 \<and> selection_pressure 1 (-1) = 0 \<and>
   noise_draws step_backend (make_params 1 1 1 default_options) 0 = Inr ((1 / 4, - (3 / 8), 1 / 2), 15) \<and>
   (\<exists>dH dV.
      ode_system step_backend (1, 2, 1 / 2) 0 (make_params 1 1 1 default_options) 0 =
        Inr ((dH, dV,
              3 / 200 * (alpha_eq (make_params 1 1 1 default_options) - 1 / 2) * selection_pressure 1 2
                + 1 / 400), 15)) \<and>
   noise_draws step_backend (make_params 1 1 1 (default_options\<lparr>opt_noise_seed := - 1\<rparr>)) 0 =
     Inl (SeedError (- 1)) \<and>
   ode_system step_backend (1, 2, 1 / 2) 0 (make_params 1 1 1 (default_options\<lparr>opt_noise_seed := - 1\<rparr>)) 0 =
     Inl (SeedError (- 1))"
proof -
  define p where "p = make_params 1 1 1 default_options"
  define q where "q = make_params 1 1 1 (default_options\<lparr>opt_noise_seed := - 1\<rparr>)"
  have "noise_seed q = Some (- 1)"
    by (simp add: q_def make_params_def split: prod.splits)
  then have rejected: "noise_draws step_backend q 0 = Inl (SeedError (- 1))"
    by (simp add: noise_draws_def np_random_seed_def seed_accepted_def call_seed_def get_default_def
        py_int_def)
  from selection_pressure_unit_interval
      [where H = 1 and V = 2 and lib = step_backend and p = q and t = 0 and alpha = "1 / 2" and g = 0]
  have "case noise_draws step_backend q 0 of
      Inl e \<Rightarrow> ode_system step_backend (1, 2, 1 / 2) 0 q 0 = Inl e
    | Inr (noise, g') \<Rightarrow>
        (\<exists>dH dV.
           ode_system step_backend (1, 2, 1 / 2) 0 q 0 =
             Inr ((dH, dV,
                   get_default (beta q) 0.015 * (alpha_eq q - 1 / 2) * selection_pressure 1 2
                     + get_default (sigma_alpha q) 0.005 * snd (snd noise)), g'))"
    by blast
  then have raised: "ode_system step_backend (1, 2, 1 / 2) 0 q 0 = Inl (SeedError (- 1))"
    unfolding rejected by simp
  have entries: "noise_seed p = Some 42" "beta p = Some (3 / 200)" "sigma_alpha p = Some (1 / 200)"
    by (simp_all add: p_def make_params_def default_options_def split: prod.splits)
  have noise: "noise_draws step_backend p 0 = Inr ((1 / 4, - (3 / 8), 1 / 2), 15)"
    by (simp add: noise_draws_def np_random_seed_def seed_accepted_def call_seed_def entries
        get_default_def py_int_def step_backend_def grid_normal_def)
  note at_2 = selection_pressure_unit_interval
      [where H = 1 and V = 2 and lib = step_backend and p = p and t = 0 and alpha = "1 / 2" and g = 0]
  from at_2 have "case noise_draws step_backend p 0 of
      Inl e \<Rightarrow> ode_system step_backend (1, 2, 1 / 2) 0 p 0 = Inl e
    | Inr (noise, g') \<Rightarrow>
        (\<exists>dH dV.
           ode_system step_backend (1, 2, 1 / 2) 0 p 0 =
             Inr ((dH, dV,
                   get_default (beta p) 0.015 * (alpha_eq p - 1 / 2) * selection_pressure 1 2
                     + get_default (sigma_alpha p) 0.005 * snd (snd noise)), g'))"
    by blast
  then have "\<exists>dH dV.
        ode_system step_backend (1, 2, 1 / 2) 0 p 0 =
          Inr ((dH, dV, 3 / 200 * (alpha_eq p - 1 / 2) * selection_pressure 1 2 + 1 / 400), 15)"
    unfolding noise by (simp add: entries get_default_def)
  moreover from at_2 have "selection_pressure 1 2 = exp (- \<bar>1 / 2 - PHI\<bar>) \<and>
      0 \<le> selection_pressure 1 2 \<and> selection_pressure 1 2 \<le> 1"
    by simp
  moreover from selection_pressure_unit_interval
      [where H = 1 and V = "-1" and lib = step_backend and p = p and t = 0 and alpha = "1 / 2" and g = 0]
  have "selection_pressure 1 (-1) = 0" by simp
  moreover have "(0::real) < 2" "(-1::real) \<le> 0" by simp_all
  ultimately show ?thesis
    using noise rejected raised unfolding p_def q_def by blast
qed

section \<open>The convergence analyzer on the empty ensemble\<close>

text \<open>
  Claim C3 says that the analyzer returns a report of not-a-number sentinels for the
  empty ensemble and does not raise. The code raises: with no trajectory the loop
  leaves the four lists empty, and the entry \<^verbatim>\<open>'convergence_rate'\<close> divides
  \<^verbatim>\<open>len(converged)\<close> by \<^verbatim>\<open>n_total = 0\<close>. The entries after it are guarded by
  \<^verbatim>\<open>if convergence_times else np.nan\<close>; this one is not.
\<close>

theorem empty_ensemble_raises: "analyze_convergence [] threshold_dphi = Inl ZeroDivisionError"
  by (simp add: analyze_convergence_def)

theorem empty_ensemble_raises_witness:
  "analyze_convergence ([] :: trajectory list) 0.5 = Inl ZeroDivisionError"
  using empty_ensemble_raises [of "0.5"] by simp

section \<open>Shape of a trajectory\<close>

text \<open>
  Claim C7 says that for every valid initial state and every horizon \<open>h \<ge> 0\<close> the
  call returns a trajectory whose arrays have length \<open>h + 1\<close>. The code does so only
  while the rows of the solution stay in \<open>[0, 1]\<^sup>3\<close>: line 254 passes every
  row to \<^verbatim>\<open>calculate_LEI\<close>, whose range check raises \<^verbatim>\<open>ValueError\<close> for a component
  outside \<open>[0, 1]\<close>, and \<^verbatim>\<open>simulate_evolution\<close> neither clamps the rows nor catches the
  exception. Take a solver that meets the contract of \<^verbatim>\<open>odeint\<close> and returns the rows
  \<open>solution\<close>, every evaluation of the right-hand side reseeding with a seed NumPy
  accepts. If every row lies in \<open>[0, 1]\<^sup>3\<close>, the call returns a trajectory with the times
  \<open>0, 1, ..., years\<close>, strictly increasing, and six arrays of length \<open>years + 1\<close>. If
  some row has a component outside \<open>[0, 1]\<close>, the call returns no trajectory: it raises
  the \<^verbatim>\<open>ValueError\<close> that names such a component of a row.
\<close>

theorem solver_row_outside_unit_interval_raises:
  assumes contract: "odeint_contract lib"
    and valid: "0 \<le> H0 \<and> H0 \<le> 1" "0 \<le> V0 \<and> V0 \<le> 1" "0 \<le> alpha0 \<and> alpha0 \<le> 1"
    and horizon: "0 \<le> years"
    and run: "odeint lib (rhs lib (make_params H0 V0 alpha0 opts) g) (H0, V0, alpha0)
                (map real [0..<nat years + 1]) = (calls, Inr solution)"
    and accepted: "\<forall>(y, s) \<in> set calls. seed_accepted (call_seed (make_params H0 V0 alpha0 opts) s)"
  shows "if \<forall>(H, V, alpha) \<in> set solution. (0 \<le> H \<and> H \<le> 1) \<and> (0 \<le> V \<and> V \<le> 1) \<and> (0 \<le> alpha \<and> alpha \<le> 1)
         then
           \<exists>tr. fst (simulate_evolution lib H0 V0 alpha0 years opts g) = Inr tr \<and>
             traj_time tr = map real [0..<nat years + 1] \<and>
             sorted_wrt (<) (traj_time tr) \<and>
             length (traj_time tr) = nat years + 1 \<and>
             length (traj_H tr) = nat years + 1 \<and>
             length (traj_V tr) = nat years + 1 \<and>
             length (traj_alpha tr) = nat years + 1 \<and>
             length (traj_LEI tr) = nat years + 1 \<and>
             length (traj_d_phi tr) = nat years + 1
         else
           \<exists>name v. fst (simulate_evolution lib H0 V0 alpha0 years opts g) = Inl (ValueError name v) \<and>
             \<not> (0 \<le> v \<and> v \<le> 1) \<and>
             (\<exists>(H, V, alpha) \<in> set solution. (name, v) \<in> {(''H'', H), (''V'', V), (''alpha'', alpha)})"
proof -
  define t where "t = map real [0..<nat years + 1]"
  have grid: "np_linspace 0 (of_int years) (years + 1) = Inr t"
    unfolding t_def using horizon by (rule np_linspace_years)
  have "t \<noteq> []" "sorted t" by (simp_all add: t_def sorted_grid del: upt_Suc)
  from contract_rows [OF contract this, of "rhs lib (make_params H0 V0 alpha0 opts) g" "(H0, V0, alpha0)"] run
  have len: "length solution = length t" by (simp add: t_def del: upt_Suc)
  have lent: "length t = nat years + 1" by (simp add: t_def)
  from replay_accepted [OF accepted, of lib g]
  have rep: "fst (replay lib (make_params H0 V0 alpha0 opts) calls g) = None" by blast
  note unfold = simulate_evolution_valid [OF valid grid run [folded t_def] rep]
  show ?thesis
  proof (cases "\<forall>(H, V, alpha) \<in> set solution. (0 \<le> H \<and> H \<le> 1) \<and> (0 \<le> V \<and> V \<le> 1) \<and> (0 \<le> alpha \<and> alpha \<le> 1)")
    case True
    from LEI_rows_inside [OF True] obtain LEI_traj
      where lei: "collect (map (\<lambda>(H, V, alpha). calculate_LEI H V alpha PHI 0.1) solution) = Inr LEI_traj" ..
    from collect_length [OF lei] have "length LEI_traj = length solution" by simp
    with lei unfold len lent have ok: "\<exists>tr. fst (simulate_evolution lib H0 V0 alpha0 years opts g) = Inr tr \<and>
             traj_time tr = map real [0..<nat years + 1] \<and>
             sorted_wrt (<) (traj_time tr) \<and>
             length (traj_time tr) = nat years + 1 \<and>
             length (traj_H tr) = nat years + 1 \<and>
             length (traj_V tr) = nat years + 1 \<and>
             length (traj_alpha tr) = nat years + 1 \<and>
             length (traj_LEI tr) = nat years + 1 \<and>
             length (traj_d_phi tr) = nat years + 1"
      by (simp add: t_def sorted_wrt_grid del: upt_Suc)
    show ?thesis unfolding if_P [OF True] by (rule ok)
  next
    case False
    from LEI_rows_outside [OF False] obtain name v
      where lei: "collect (map (\<lambda>(H, V, alpha). calculate_LEI H V alpha PHI 0.1) solution) = Inl (ValueError name v)"
        and out: "\<not> (0 \<le> v \<and> v \<le> 1)"
        and row: "\<exists>(H, V, alpha) \<in> set solution. (name, v) \<in> {(''H'', H), (''V'', V), (''alpha'', alpha)}"
      by blast
    from lei unfold have "fst (simulate_evolution lib H0 V0 alpha0 years opts g) = Inl (ValueError name v)"
      by simp
    with out row have failed: "\<exists>name v. fst (simulate_evolution lib H0 V0 alpha0 years opts g) = Inl (ValueError name v) \<and>
             \<not> (0 \<le> v \<and> v \<le> 1) \<and>
             (\<exists>(H, V, alpha) \<in> set solution. (name, v) \<in> {(''H'', H), (''V'', V), (''alpha'', alpha)})"
      by blast
    show ?thesis unfolding if_not_P [OF False] by (rule failed)
  qed
qed

theorem solver_row_outside_unit_interval_raises_witness:
  "odeint_contract step_backend \<and> (0::int) \<le> 1 \<and>
   odeint step_backend (rhs step_backend (make_params 0 0 0 default_options) 0) (0, 0, 0)
       (map real [0..<nat 1 + 1]) =
     ([((0, 0, 0), 0)], Inr [(0, 0, 0), (1 / 400, - (3 / 800), 1 / 400)]) \<and>
   seed_accepted (call_seed (make_params 0 0 0 default_options) 0) \<and>
   fst (simulate_evolution step_backend 0 0 0 1 default_options 0) = Inl (ValueError ''V'' (- (3 / 800))) \<and>
   odeint step_backend (rhs step_backend (make_params (7 / 10) (3 / 5) (1 / 2) drift_free_options) 0)
       (7 / 10, 3 / 5, 1 / 2) (map real [0..<nat 1 + 1]) =
     ([((7 / 10, 3 / 5, 1 / 2), 0)],
      Inr [(7 / 10, 3 / 5, 1 / 2), (281 / 400, 477 / 800, 201 / 400)]) \<and>
   (\<exists>tr. fst (simulate_evolution step_backend (7 / 10) (3 / 5) (1 / 2) 1 drift_free_options 0) = Inr tr \<and>
      traj_time tr = [0, 1] \<and> length (traj_H tr) = 2 \<and> length (traj_LEI tr) = 2 \<and>
      length (traj_d_phi tr) = 2)"
proof -
  have horizon: "(0::int) \<le> 1" by simp
  have origin: "(0::real) \<le> 0 \<and> (0::real) \<le> 1" by simp
  have run0: "odeint step_backend (rhs step_backend (make_params 0 0 0 default_options) 0) (0, 0, 0)
       (map real [0..<nat 1 + 1]) =
     ([((0, 0, 0), 0)], Inr [(0, 0, 0), (1 / 400, - (3 / 800), 1 / 400)])"
    unfolding grid_one by (rule origin_run)
  have acc0: "seed_accepted (call_seed (make_params 0 0 0 default_options) 0)"
    by (rule default_seed_accepted_at_zero) (simp add: default_options_def)
  then have accepted0: "\<forall>(y, s) \<in> set [((0 :: real, 0 :: real, 0 :: real), 0 :: real)].
      seed_accepted (call_seed (make_params 0 0 0 default_options) s)"
    by simp
  from solver_row_outside_unit_interval_raises
    [OF step_backend_contract origin origin origin horizon run0 accepted0]
  obtain name v where err: "fst (simulate_evolution step_backend 0 0 0 1 default_options 0) = Inl (ValueError name v)"
    and out: "\<not> (0 \<le> v \<and> v \<le> 1)"
    and row: "(name, v) \<in> {(''H'', 0), (''V'', 0), (''alpha'', 0), (''H'', 1 / 400), (''V'', - (3 / 800)),
                (''alpha'', 1 / 400)}"
    by auto
  from out row have "name = ''V'' \<and> v = - (3 / 800)" by auto
  with err have raised: "fst (simulate_evolution step_backend 0 0 0 1 default_options 0) =
      Inl (ValueError ''V'' (- (3 / 800)))"
    by simp
  have valid: "(0::real) \<le> 7 / 10 \<and> (7 / 10 :: real) \<le> 1" "(0::real) \<le> 3 / 5 \<and> (3 / 5 :: real) \<le> 1"
    "(0::real) \<le> 1 / 2 \<and> (1 / 2 :: real) \<le> 1"
    by simp_all
  have run1: "odeint step_backend (rhs step_backend (make_params (7 / 10) (3 / 5) (1 / 2) drift_free_options) 0)
       (7 / 10, 3 / 5, 1 / 2) (map real [0..<nat 1 + 1]) =
     ([((7 / 10, 3 / 5, 1 / 2), 0)],
      Inr [(7 / 10, 3 / 5, 1 / 2), (281 / 400, 477 / 800, 201 / 400)])"
    unfolding grid_one by (rule drift_free_run)
  have "seed_accepted (call_seed (make_params (7 / 10) (3 / 5) (1 / 2) drift_free_options) 0)"
    by (rule default_seed_accepted_at_zero) (simp add: drift_free_options_def default_options_def)
  then have accepted1: "\<forall>(y, s) \<in> set [((7 / 10 :: real, 3 / 5 :: real, 1 / 2 :: real), 0 :: real)].
      seed_accepted (call_seed (make_params (7 / 10) (3 / 5) (1 / 2) drift_free_options) s)"
    by simp
  from solver_row_outside_unit_interval_raises
    [OF step_backend_contract valid horizon run1 accepted1]
  have "\<exists>tr. fst (simulate_evolution step_backend (7 / 10) (3 / 5) (1 / 2) 1 drift_free_options 0) = Inr tr \<and>
      traj_time tr = [0, 1] \<and> length (traj_H tr) = 2 \<and> length (traj_LEI tr) = 2 \<and>
      length (traj_d_phi tr) = 2"
    by (auto simp add: grid_one)
  with step_backend_contract horizon run0 acc0 raised run1 show ?thesis
    by blast
qed

section \<open>The horizon zero\<close>

text \<open>
  Claim C6. With a solver that meets the contract of \<^verbatim>\<open>odeint\<close>, for \<open>years = 0\<close> and
  every initial state in \<open>[0, 1]\<^sup>3\<close> the call returns a trajectory with exactly one
  sample, at time 0, whose \<open>(H, V, alpha)\<close> is the initial state.
\<close>

theorem zero_horizon_single_sample:
  assumes contract: "odeint_contract lib"
    and valid: "0 \<le> H0 \<and> H0 \<le> 1" "0 \<le> V0 \<and> V0 \<le> 1" "0 \<le> alpha0 \<and> alpha0 \<le> 1"
  shows "\<exists>lei. calculate_LEI H0 V0 alpha0 PHI 0.1 = Inr lei \<and>
           fst (simulate_evolution lib H0 V0 alpha0 0 opts g) =
             Inr \<lparr>traj_time = [0], traj_H = [H0], traj_V = [V0], traj_alpha = [alpha0],
                  traj_LEI = [lei], traj_d_phi = [calculate_d_phi H0 V0 PHI],
                  traj_H_eq = H_eq (make_params H0 V0 alpha0 opts),
                  traj_V_eq = V_eq (make_params H0 V0 alpha0 opts),
                  traj_alpha_eq = alpha_eq (make_params H0 V0 alpha0 opts)\<rparr>"
proof -
  have grid: "np_linspace 0 (of_int 0) (0 + 1) = Inr [0]"
    by (simp add: np_linspace_def)
  note run = contract_zero_horizon
    [OF contract, of "rhs lib (make_params H0 V0 alpha0 opts) g" "(H0, V0, alpha0)" 0]
  have rep: "fst (replay lib (make_params H0 V0 alpha0 opts) [] g) = None" by simp
  from calculate_LEI_valid [OF valid] obtain lei
    where lei: "calculate_LEI H0 V0 alpha0 PHI 0.1 = Inr lei" ..
  from simulate_evolution_valid [OF valid grid run rep] lei
  show ?thesis by simp
qed

theorem zero_horizon_single_sample_witness:
  "odeint_contract step_backend \<and> (0::real) \<le> 0.7 \<and> (0.7::real) \<le> 1 \<and>
   (\<exists>lei. calculate_LEI 0.7 0.6 0.5 PHI 0.1 = Inr lei \<and>
      fst (simulate_evolution step_backend 0.7 0.6 0.5 0 default_options 0) =
        Inr \<lparr>traj_time = [0], traj_H = [0.7], traj_V = [0.6], traj_alpha = [0.5],
             traj_LEI = [lei], traj_d_phi = [calculate_d_phi 0.7 0.6 PHI],
             traj_H_eq = H_eq (make_params 0.7 0.6 0.5 default_options),
             traj_V_eq = V_eq (make_params 0.7 0.6 0.5 default_options),
             traj_alpha_eq = alpha_eq (make_params 0.7 0.6 0.5 default_options)\<rparr>)"
  using zero_horizon_single_sample [OF step_backend_contract, of "0.7" "0.6" "0.5" default_options 0]
    step_backend_contract
  by simp

section \<open>Input validation\<close>

text \<open>
  Claim C5, as amended. \<open>simulate_evolution\<close> raises the \<^verbatim>\<open>ValueError\<close> that names an
  initial field if and only if some initial field lies outside \<open>[0, 1]\<close>, whatever the
  horizon. The error names the first offending field among \<open>H0\<close>, \<open>V0\<close>, \<open>alpha0\<close>
  with its value; it is the same for every backend and leaves the generator as it was,
  so it is raised before the solver is called. The horizon is not checked: with valid
  fields and a solver that meets the contract of \<^verbatim>\<open>odeint\<close>, the call with \<open>years = 0\<close>
  returns a trajectory; with valid fields and \<open>years < -1\<close> the exception is the one
  \<^verbatim>\<open>np.linspace\<close> raises for a negative number of samples, which names no field.
\<close>

theorem input_validation_names_field:
  "(\<not> (0 \<le> H0 \<and> H0 \<le> 1) \<longrightarrow>
      simulate_evolution lib H0 V0 alpha0 years opts g = (Inl (ValueError ''H0'' H0), g)) \<and>
   ((0 \<le> H0 \<and> H0 \<le> 1) \<and> \<not> (0 \<le> V0 \<and> V0 \<le> 1) \<longrightarrow>
      simulate_evolution lib H0 V0 alpha0 years opts g = (Inl (ValueError ''V0'' V0), g)) \<and>
   ((0 \<le> H0 \<and> H0 \<le> 1) \<and> (0 \<le> V0 \<and> V0 \<le> 1) \<and> \<not> (0 \<le> alpha0 \<and> alpha0 \<le> 1) \<longrightarrow>
      simulate_evolution lib H0 V0 alpha0 years opts g = (Inl (ValueError ''alpha0'' alpha0), g)) \<and>
   ((\<exists>name v. fst (simulate_evolution lib H0 V0 alpha0 years opts g) = Inl (ValueError name v) \<and>
       name \<in> {''H0'', ''V0'', ''alpha0''})
     \<longleftrightarrow> \<not> ((0 \<le> H0 \<and> H0 \<le> 1) \<and> (0 \<le> V0 \<and> V0 \<le> 1) \<and> (0 \<le> alpha0 \<and> alpha0 \<le> 1))) \<and>
   (odeint_contract lib \<and> (0 \<le> H0 \<and> H0 \<le> 1) \<and> (0 \<le> V0 \<and> V0 \<le> 1) \<and> (0 \<le> alpha0 \<and> alpha0 \<le> 1) \<longrightarrow>
      (\<exists>tr. fst (simulate_evolution lib H0 V0 alpha0 0 opts g) = Inr tr)) \<and>
   ((0 \<le> H0 \<and> H0 \<le> 1) \<and> (0 \<le> V0 \<and> V0 \<le> 1) \<and> (0 \<le> alpha0 \<and> alpha0 \<le> 1) \<and> years < -1 \<longrightarrow>
      simulate_evolution lib H0 V0 alpha0 years opts g = (Inl (SamplesError (years + 1)), g))"
proof -
  have fields: "(\<not> (0 \<le> H0 \<and> H0 \<le> 1) \<longrightarrow>
      simulate_evolution lib H0 V0 alpha0 years opts g = (Inl (ValueError ''H0'' H0), g)) \<and>
   ((0 \<le> H0 \<and> H0 \<le> 1) \<and> \<not> (0 \<le> V0 \<and> V0 \<le> 1) \<longrightarrow>
      simulate_evolution lib H0 V0 alpha0 years opts g = (Inl (ValueError ''V0'' V0), g)) \<and>
   ((0 \<le> H0 \<and> H0 \<le> 1) \<and> (0 \<le> V0 \<and> V0 \<le> 1) \<and> \<not> (0 \<le> alpha0 \<and> alpha0 \<le> 1) \<longrightarrow>
      simulate_evolution lib H0 V0 alpha0 years opts g = (Inl (ValueError ''alpha0'' alpha0), g)) \<and>
   ((\<exists>name v. fst (simulate_evolution lib H0 V0 alpha0 years opts g) = Inl (ValueError name v) \<and>
       name \<in> {''H0'', ''V0'', ''alpha0''})
     \<longleftrightarrow> \<not> ((0 \<le> H0 \<and> H0 \<le> 1) \<and> (0 \<le> V0 \<and> V0 \<le> 1) \<and> (0 \<le> alpha0 \<and> alpha0 \<le> 1)))"
    using no_input_error_when_valid [of H0 V0 alpha0 lib years opts g]
    by (auto simp: simulate_evolution_def)
  have zero: "\<exists>tr. fst (simulate_evolution lib H0 V0 alpha0 0 opts g) = Inr tr"
    if "odeint_contract lib \<and> (0 \<le> H0 \<and> H0 \<le> 1) \<and> (0 \<le> V0 \<and> V0 \<le> 1) \<and> (0 \<le> alpha0 \<and> alpha0 \<le> 1)"
  proof -
    from that have c: "odeint_contract lib" and v: "0 \<le> H0 \<and> H0 \<le> 1" "0 \<le> V0 \<and> V0 \<le> 1"
      "0 \<le> alpha0 \<and> alpha0 \<le> 1" by simp_all
    from zero_horizon_returns [OF c v, of opts g] show ?thesis by blast
  qed
  have negative: "simulate_evolution lib H0 V0 alpha0 years opts g = (Inl (SamplesError (years + 1)), g)"
    if "(0 \<le> H0 \<and> H0 \<le> 1) \<and> (0 \<le> V0 \<and> V0 \<le> 1) \<and> (0 \<le> alpha0 \<and> alpha0 \<le> 1) \<and> years < -1"
    using that by (simp add: simulate_evolution_def np_linspace_def)
  from fields zero negative show ?thesis by blast
qed

theorem input_validation_names_field_witness:
  "\<not> (0 \<le> (3 / 2 :: real) \<and> (3 / 2 :: real) \<le> 1) \<and>
   simulate_evolution step_backend (3 / 2) (3 / 5) (1 / 2) 10 default_options 0 =
     (Inl (ValueError ''H0'' (3 / 2)), 0) \<and>
   (0 \<le> (7 / 10 :: real) \<and> (7 / 10 :: real) \<le> 1) \<and> \<not> (0 \<le> (- (1 / 5) :: real) \<and> (- (1 / 5) :: real) \<le> 1) \<and>
   simulate_evolution step_backend (7 / 10) (- (1 / 5)) (1 / 2) 10 default_options 0 =
     (Inl (ValueError ''V0'' (- (1 / 5))), 0) \<and>
   odeint_contract step_backend \<and>
   (\<exists>tr. fst (simulate_evolution step_backend (7 / 10) (3 / 5) (1 / 2) 0 default_options 0) = Inr tr) \<and>
   (-3 :: int) < -1 \<and>
   simulate_evolution step_backend (7 / 10) (3 / 5) (1 / 2) (-3) default_options 0 =
     (Inl (SamplesError (-2)), 0)"
  using input_validation_names_field [of "3 / 2" step_backend "3 / 5" "1 / 2" 10 default_options 0]
    input_validation_names_field [of "7 / 10" step_backend "- (1 / 5)" "1 / 2" 10 default_options 0]
    input_validation_names_field [of "7 / 10" step_backend "3 / 5" "1 / 2" "-3" default_options 0]
    step_backend_contract
  by simp

text \<open>
  Claim C5 as stated says that the call reports a validation error when the horizon is
  zero. At \<open>years = 0\<close> with the fields \<open>(0.7, 0.6, 0.5)\<close> the concrete backend returns
  a trajectory, and no backend that meets the contract of \<^verbatim>\<open>odeint\<close>, with any options
  and generator state, makes the call raise.
\<close>

theorem zero_horizon_is_not_rejected:
  "(0::int) \<le> 0 \<and> odeint_contract step_backend \<and>
   (\<exists>tr. fst (simulate_evolution step_backend (7 / 10) (3 / 5) (1 / 2) 0 default_options 0) = Inr tr) \<and>
   \<not> (\<exists>(lib :: 'g backend) opts g e.
        odeint_contract lib \<and> fst (simulate_evolution lib (7 / 10) (3 / 5) (1 / 2) 0 opts g) = Inl e)"
proof -
  have valid: "(0::real) \<le> 7 / 10 \<and> (7 / 10 :: real) \<le> 1" "(0::real) \<le> 3 / 5 \<and> (3 / 5 :: real) \<le> 1"
    "(0::real) \<le> 1 / 2 \<and> (1 / 2 :: real) \<le> 1"
    by simp_all
  have "\<not> (odeint_contract lib \<and> fst (simulate_evolution lib (7 / 10) (3 / 5) (1 / 2) 0 opts g) = Inl e)"
    for lib :: "'g backend" and opts g e
  proof
    assume a: "odeint_contract lib \<and> fst (simulate_evolution lib (7 / 10) (3 / 5) (1 / 2) 0 opts g) = Inl e"
    then have "odeint_contract lib" ..
    from zero_horizon_returns [OF this valid, of opts g] a show False by auto
  qed
  then have "\<not> (\<exists>(lib :: 'g backend) opts g e.
        odeint_contract lib \<and> fst (simulate_evolution lib (7 / 10) (3 / 5) (1 / 2) 0 opts g) = Inl e)"
    by blast
  moreover from zero_horizon_returns [OF step_backend_contract valid, of default_options 0]
  have "\<exists>tr. fst (simulate_evolution step_backend (7 / 10) (3 / 5) (1 / 2) 0 default_options 0) = Inr tr"
    by blast
  ultimately show ?thesis using step_backend_contract by simp
qed

section \<open>The distance metric\<close>

text \<open>
  Claim C8. \<open>calculate_d_phi\<close> is nonnegative for all arguments; for \<open>V = 0\<close> it
  returns the constant 10 and does not divide; hence every \<open>d_phi\<close> sample of every
  returned trajectory is nonnegative.
\<close>

theorem d_phi_nonnegative:
  "0 \<le> calculate_d_phi H V phi \<and> calculate_d_phi H 0 phi = 10 \<and>
   (fst (simulate_evolution lib H0 V0 alpha0 years opts g) = Inr tr \<longrightarrow>
      (\<forall>d \<in> set (traj_d_phi tr). 0 \<le> d))"
proof -
  have "\<forall>d \<in> set (traj_d_phi tr). 0 \<le> d"
    if "fst (simulate_evolution lib H0 V0 alpha0 years opts g) = Inr tr"
  proof -
    from simulate_evolution_Inr [OF that] obtain solution :: "state list"
      where "traj_d_phi tr = map (\<lambda>(H, V, alpha). calculate_d_phi H V PHI) solution" by blast
    then show ?thesis by (auto simp: calculate_d_phi_nonneg)
  qed
  moreover have "calculate_d_phi H 0 phi = 10" by (simp add: calculate_d_phi_def)
  ultimately show ?thesis using calculate_d_phi_nonneg by blast
qed

theorem d_phi_nonnegative_witness:
  "0 \<le> calculate_d_phi (7 / 10) (6 / 10) PHI \<and> calculate_d_phi (7 / 10) 0 PHI = 10 \<and>
   (\<exists>tr. fst (simulate_evolution step_backend (7 / 10) (6 / 10) (5 / 10) 0 default_options 0) = Inr tr \<and>
      traj_d_phi tr = [calculate_d_phi (7 / 10) (6 / 10) PHI] \<and> 0 \<le> traj_d_phi tr ! 0)"
proof -
  have valid: "(0::real) \<le> 7 / 10 \<and> (7 / 10 :: real) \<le> 1" "(0::real) \<le> 6 / 10 \<and> (6 / 10 :: real) \<le> 1"
    "(0::real) \<le> 5 / 10 \<and> (5 / 10 :: real) \<le> 1"
    by simp_all
  from zero_horizon_returns [OF step_backend_contract valid, of default_options 0] obtain tr
    where tr: "fst (simulate_evolution step_backend (7 / 10) (6 / 10) (5 / 10) 0 default_options 0) = Inr tr"
      and d: "traj_d_phi tr = [calculate_d_phi (7 / 10) (6 / 10) PHI]" by blast
  from d_phi_nonnegative [of "7 / 10" "6 / 10" PHI step_backend "7 / 10" "6 / 10" "5 / 10" 0 default_options 0 tr] tr d
  show ?thesis by auto
qed

section \<open>The ensemble sampler\<close>



section \<open>The sampler and the process-wide generator\<close>

text \<open>
  Claim C4 says that the initial states of a batch are the first draws of a generator
  seeded once with the base seed, whatever the integrations do. The sampler does seed
  once (line 315), but \<^verbatim>\<open>ode_system\<close> reseeds the same process-wide generator at every
  call (line 134). So, when the solver has evaluated the right-hand side at least once
  during run \<open>i\<close>, with seeds NumPy accepts, the rest of the batch, whose first action
  is the draw of the next initial state, starts from the generator as reseeded at the
  last of these evaluations and advanced by three normal draws, not from the state
  \<open>g1\<close> that the draws of run \<open>i\<close> left.
\<close>

theorem batch_continues_from_reseeded_generator:
  assumes draw: "draw_initial lib HR VR AR g = ((H0, V0, alpha0), g1)"
    and valid: "0 \<le> H0 \<and> H0 \<le> 1" "0 \<le> V0 \<and> V0 \<le> 1" "0 \<le> alpha0 \<and> alpha0 \<le> 1"
    and horizon: "0 \<le> years"
    and opts: "opts = bind_kwargs (kw\<lparr>kw_noise_seed := Some (get_default (kw_noise_seed kw) 42 + i)\<rparr>)"
    and calls: "fst (odeint lib (rhs lib (make_params H0 V0 alpha0 opts) g1)
                  (H0, V0, alpha0) (map real [0..<nat years + 1])) = calls"
    and accepted: "\<forall>(y, s) \<in> set calls. seed_accepted (call_seed (make_params H0 V0 alpha0 opts) s)"
    and nonempty: "calls \<noteq> []"
  shows "\<exists>noise g2.
           noise_draws lib (make_params H0 V0 alpha0 opts) (snd (last calls)) = Inr (noise, g2) \<and>
           run_batch lib years HR VR AR kw (i # rest) g =
             (case run_batch lib years HR VR AR kw rest g2 of
                (ms, ws, g3) \<Rightarrow>
                  (case fst (simulate_evolution lib H0 V0 alpha0 years opts g1) of
                     Inr result \<Rightarrow> (annotate result i H0 V0 alpha0 # ms, ws, g3)
                   | Inl e \<Rightarrow> (ms, (i, e) # ws, g3)))"
proof -
  define g2 where "g2 = snd (simulate_evolution lib H0 V0 alpha0 years opts g1)"
  from generator_after_run [OF valid horizon calls accepted nonempty] obtain noise
    where noise: "noise_draws lib (make_params H0 V0 alpha0 opts) (snd (last calls)) = Inr (noise, g2)"
    unfolding g2_def ..
  obtain res where sim: "simulate_evolution lib H0 V0 alpha0 years opts g1 = (res, g2)"
    unfolding g2_def by (metis prod.collapse)
  obtain ms ws g3 where r: "run_batch lib years HR VR AR kw rest g2 = (ms, ws, g3)"
    by (cases "run_batch lib years HR VR AR kw rest g2")
  have "run_batch lib years HR VR AR kw (i # rest) g =
             (case run_batch lib years HR VR AR kw rest g2 of
                (ms, ws, g3) \<Rightarrow>
                  (case fst (simulate_evolution lib H0 V0 alpha0 years opts g1) of
                     Inr result \<Rightarrow> (annotate result i H0 V0 alpha0 # ms, ws, g3)
                   | Inl e \<Rightarrow> (ms, (i, e) # ws, g3)))"
  proof (cases res)
    case (Inl e)
    from run_batch_Cons_Inl [OF draw sim [unfolded opts Inl] r [unfolded opts]]
    show ?thesis unfolding r sim Inl using opts by simp
  next
    case (Inr result)
    from run_batch_Cons_Inr [OF draw sim [unfolded opts Inr] r [unfolded opts]]
    show ?thesis unfolding r sim Inr using opts by simp
  qed
  with noise show ?thesis by blast
qed

theorem batch_continues_from_reseeded_generator_witness:
  "draw_initial step_backend (3 / 10, 19 / 20) (1 / 10, 17 / 20) (1 / 10, 4 / 5) 10
     = ((113 / 160, 107 / 320, 5 / 8), 15) \<and>
   (0::int) \<le> 2 \<and>
   seed_accepted (call_seed (make_params (113 / 160) (107 / 320) (5 / 8)
             (bind_kwargs (empty_kwargs\<lparr>kw_noise_seed := Some (get_default (kw_noise_seed empty_kwargs) 42 + 0)\<rparr>))) 0) \<and>
   seed_accepted (call_seed (make_params (113 / 160) (107 / 320) (5 / 8)
             (bind_kwargs (empty_kwargs\<lparr>kw_noise_seed := Some (get_default (kw_noise_seed empty_kwargs) 42 + 0)\<rparr>))) 1) \<and>
   noise_draws step_backend
          (make_params (113 / 160) (107 / 320) (5 / 8)
             (bind_kwargs (empty_kwargs\<lparr>kw_noise_seed := Some (get_default (kw_noise_seed empty_kwargs) 42 + 0)\<rparr>)))
          1 = Inr ((- (3 / 4), 5 / 8, - (1 / 2)), 7) \<and>
   run_batch step_backend 2 (3 / 10, 19 / 20) (1 / 10, 17 / 20) (1 / 10, 4 / 5) empty_kwargs [0, 1] 10 =
     (case run_batch step_backend 2 (3 / 10, 19 / 20) (1 / 10, 17 / 20) (1 / 10, 4 / 5) empty_kwargs [1] 7 of
        (ms, ws, g3) \<Rightarrow>
          (case fst (simulate_evolution step_backend (113 / 160) (107 / 320) (5 / 8) 2
                       (bind_kwargs (empty_kwargs\<lparr>kw_noise_seed := Some (get_default (kw_noise_seed empty_kwargs) 42 + 0)\<rparr>))
                       15) of
             Inr result \<Rightarrow> (annotate result 0 (113 / 160) (107 / 320) (5 / 8) # ms, ws, g3)
           | Inl e \<Rightarrow> (ms, (0, e) # ws, g3)))"
proof -
  define opts where "opts = bind_kwargs (empty_kwargs\<lparr>kw_noise_seed := Some (get_default (kw_noise_seed empty_kwargs) 42 + 0)\<rparr>)"
  define p where "p = make_params (113 / 160) (107 / 320) (5 / 8) opts"
  have draw: "draw_initial step_backend (3 / 10, 19 / 20) (1 / 10, 17 / 20) (1 / 10, 4 / 5) 10
     = ((113 / 160, 107 / 320, 5 / 8), 15)"
    by (simp add: draw_initial_def step_backend_def grid_uniform_def)
  have valid: "(0::real) \<le> 113 / 160 \<and> (113 / 160 :: real) \<le> 1"
    "(0::real) \<le> 107 / 320 \<and> (107 / 320 :: real) \<le> 1" "(0::real) \<le> 5 / 8 \<and> (5 / 8 :: real) \<le> 1"
    by simp_all
  have horizon: "(0::int) \<le> 2" by simp
  have grid: "map real [0..<nat 2 + 1] = [0, 1, 2]"
    by (simp add: upt_rec numeral_eq_Suc)
  have seed: "noise_seed p = Some 42"
    by (simp add: p_def opts_def make_params_def bind_kwargs_def empty_kwargs_def get_default_def
        split: prod.splits)
  have acc: "seed_accepted (call_seed p 0)" "seed_accepted (call_seed p 1)"
    by (simp_all add: seed_accepted_def call_seed_def seed get_default_def py_int_def)
  define calls where "calls = fst (odeint step_backend (rhs step_backend p 15)
       (113 / 160, 107 / 320, 5 / 8) (map real [0..<nat 2 + 1]))"
  have last_call: "calls \<noteq> [] \<and> snd (last calls) = 1"
    unfolding calls_def grid by (simp add: step_backend_def step_odeint_def)
  have accepted: "\<forall>(y, s) \<in> set calls. seed_accepted (call_seed p s)"
    unfolding calls_def grid using acc by (simp add: step_backend_def step_odeint_def)
  have noise: "noise_draws step_backend p 1 = Inr ((- (3 / 4), 5 / 8, - (1 / 2)), 7)"
    by (simp add: noise_draws_def np_random_seed_def seed_accepted_def call_seed_def seed
        get_default_def py_int_def step_backend_def grid_normal_def)
  from last_call have nonempty: "calls \<noteq> []" and at_one: "snd (last calls) = 1" by simp_all
  from batch_continues_from_reseeded_generator
    [OF draw valid horizon opts_def calls_def [symmetric, unfolded p_def] accepted [unfolded p_def] nonempty,
      of "[1]"]
  have "run_batch step_backend 2 (3 / 10, 19 / 20) (1 / 10, 17 / 20) (1 / 10, 4 / 5) empty_kwargs [0, 1] 10 =
     (case run_batch step_backend 2 (3 / 10, 19 / 20) (1 / 10, 17 / 20) (1 / 10, 4 / 5) empty_kwargs [1] 7 of
        (ms, ws, g3) \<Rightarrow>
          (case fst (simulate_evolution step_backend (113 / 160) (107 / 320) (5 / 8) 2 opts 15) of
             Inr result \<Rightarrow> (annotate result 0 (113 / 160) (107 / 320) (5 / 8) # ms, ws, g3)
           | Inl e \<Rightarrow> (ms, (0, e) # ws, g3)))"
    unfolding at_one p_def [symmetric] noise by simp
  with draw horizon acc noise show ?thesis
    unfolding p_def opts_def by blast
qed

section \<open>The integration scheme\<close>

text \<open>
  Claim C1, as amended. \<open>simulate_evolution\<close> does not step the system itself: it hands
  the right-hand side and the grid \<open>0, 1, ..., years\<close> to \<^verbatim>\<open>odeint\<close>. With a solver
  that meets the contract of \<^verbatim>\<open>odeint\<close>, for every initial state in \<open>[0, 1]\<^sup>3\<close> and
  horizon \<open>years \<ge> 0\<close>, the recorded states of a returned trajectory are the rows the
  solver returns for that right-hand side on that grid, and sample 0 is the initial
  state. The right-hand side is the drift plus noise of section 4.3, the three noise
  values being the successive normal draws after reseeding with \<open>seed + int(1000 t)\<close>.
  The recurrence \<open>x(t+1) = x(t) + dx/dt\<close> holds at every step below the horizon when
  the solver is the one that takes one explicit unit step per grid interval.
\<close>

theorem trajectory_is_solver_output:
  assumes contract: "odeint_contract lib"
    and valid: "0 \<le> H0 \<and> H0 \<le> 1" "0 \<le> V0 \<and> V0 \<le> 1" "0 \<le> alpha0 \<and> alpha0 \<le> 1"
    and horizon: "0 \<le> years"
    and res: "fst (simulate_evolution lib H0 V0 alpha0 years opts g) = Inr tr"
  shows "(\<exists>calls rows.
            odeint lib (rhs lib (make_params H0 V0 alpha0 opts) g) (H0, V0, alpha0)
              (map real [0..<nat years + 1]) = (calls, Inr rows) \<and>
            traj_H tr = map (\<lambda>(H, V, alpha). H) rows \<and>
            traj_V tr = map (\<lambda>(H, V, alpha). V) rows \<and>
            traj_alpha tr = map (\<lambda>(H, V, alpha). alpha) rows) \<and>
         traj_time tr = map real [0..<nat years + 1] \<and>
         (traj_H tr ! 0, traj_V tr ! 0, traj_alpha tr ! 0) = (H0, V0, alpha0) \<and>
         (\<forall>H V alpha s dy g'.
            ode_system lib (H, V, alpha) s (make_params H0 V0 alpha0 opts) g = Inr (dy, g') \<longrightarrow>
              rhs lib (make_params H0 V0 alpha0 opts) g (H, V, alpha) s = dy \<and>
              (\<exists>noise_H noise_V noise_alpha.
                 noise_draws lib (make_params H0 V0 alpha0 opts) s = Inr ((noise_H, noise_V, noise_alpha), g') \<and>
                 dy = (opt_gamma_H opts * (H_eq (make_params H0 V0 alpha0 opts) - H) + opt_sigma_H opts * noise_H,
                       opt_gamma_V opts * (V_eq (make_params H0 V0 alpha0 opts) - V) + opt_sigma_V opts * noise_V,
                       opt_beta opts * (alpha_eq (make_params H0 V0 alpha0 opts) - alpha) * selection_pressure H V
                         + opt_sigma_alpha opts * noise_alpha))) \<and>
         (odeint lib = step_odeint \<longrightarrow>
            follows_euler_maruyama lib (make_params H0 V0 alpha0 opts) g tr years)"
proof -
  define p where "p = make_params H0 V0 alpha0 opts"
  define t where "t = map real [0..<nat years + 1]"
  from simulate_evolution_Inr [OF res] np_linspace_years [OF horizon] obtain calls rows
    where run: "odeint lib (rhs lib p g) (H0, V0, alpha0) t = (calls, Inr rows)"
      and T: "traj_time tr = t"
      and H: "traj_H tr = map (\<lambda>(H, V, alpha). H) rows"
      and V: "traj_V tr = map (\<lambda>(H, V, alpha). V) rows"
      and A: "traj_alpha tr = map (\<lambda>(H, V, alpha). alpha) rows"
    unfolding p_def t_def by auto
  have "t \<noteq> []" "sorted t" by (simp_all add: t_def sorted_grid del: upt_Suc)
  from contract_rows [OF contract this, of "rhs lib p g" "(H0, V0, alpha0)"] run
  have len: "length rows = length t" and first: "rows ! 0 = (H0, V0, alpha0)" by simp_all
  have "0 < length rows" unfolding len by (simp add: t_def)
  with first H V A have start: "(traj_H tr ! 0, traj_V tr ! 0, traj_alpha tr ! 0) = (H0, V0, alpha0)"
    by simp
  have rows: "\<exists>calls rows.
            odeint lib (rhs lib p g) (H0, V0, alpha0) t = (calls, Inr rows) \<and>
            traj_H tr = map (\<lambda>(H, V, alpha). H) rows \<and>
            traj_V tr = map (\<lambda>(H, V, alpha). V) rows \<and>
            traj_alpha tr = map (\<lambda>(H, V, alpha). alpha) rows"
    using run H V A by blast
  have formula: "rhs lib p g (H, V, alpha) s = dy \<and>
              (\<exists>noise_H noise_V noise_alpha.
                 noise_draws lib p s = Inr ((noise_H, noise_V, noise_alpha), g') \<and>
                 dy = (opt_gamma_H opts * (H_eq p - H) + opt_sigma_H opts * noise_H,
                       opt_gamma_V opts * (V_eq p - V) + opt_sigma_V opts * noise_V,
                       opt_beta opts * (alpha_eq p - alpha) * selection_pressure H V
                         + opt_sigma_alpha opts * noise_alpha))"
    if "ode_system lib (H, V, alpha) s p g = Inr (dy, g')" for H V alpha s dy g'
    using rhs_value [OF that, of g] ode_system_formula [OF that [unfolded p_def]]
    unfolding p_def by blast
  have euler: "follows_euler_maruyama lib p g tr years" if "odeint lib = step_odeint"
    unfolding p_def using horizon res that by (rule unit_step_follows_euler_maruyama)
  from rows T start formula euler show ?thesis
    unfolding p_def t_def by blast
qed

theorem trajectory_is_solver_output_witness:
  "odeint_contract step_backend \<and> (0::int) \<le> 1 \<and> odeint step_backend = step_odeint \<and>
   (\<exists>tr. fst (simulate_evolution step_backend (7 / 10) (3 / 5) (1 / 2) 1 drift_free_options 0) = Inr tr \<and>
      traj_time tr = [0, 1] \<and>
      traj_H tr = [7 / 10, 281 / 400] \<and> traj_V tr = [3 / 5, 477 / 800] \<and>
      traj_alpha tr = [1 / 2, 201 / 400] \<and>
      (traj_H tr ! 0, traj_V tr ! 0, traj_alpha tr ! 0) = (7 / 10, 3 / 5, 1 / 2) \<and>
      follows_euler_maruyama step_backend
        (make_params (7 / 10) (3 / 5) (1 / 2) drift_free_options) 0 tr 1)"
proof -
  define p where "p = make_params (7 / 10) (3 / 5) (1 / 2) drift_free_options"
  have valid: "(0::real) \<le> 7 / 10 \<and> (7 / 10 :: real) \<le> 1" "(0::real) \<le> 3 / 5 \<and> (3 / 5 :: real) \<le> 1"
    "(0::real) \<le> 1 / 2 \<and> (1 / 2 :: real) \<le> 1" and horizon: "(0::int) \<le> 1"
    by simp_all
  have solver: "odeint step_backend = step_odeint" by (simp add: step_backend_def)
  have grid: "np_linspace 0 (of_int 1) (1 + 1) = Inr [0, 1]"
    using np_linspace_years [OF horizon] by (simp add: grid_one)
  have "seed_accepted (call_seed p 0)"
    unfolding p_def
    by (rule default_seed_accepted_at_zero) (simp add: drift_free_options_def default_options_def)
  then have "\<forall>(y, s) \<in> set [((7 / 10 :: real, 3 / 5 :: real, 1 / 2 :: real), 0 :: real)].
      seed_accepted (call_seed p s)"
    by simp
  from replay_accepted [OF this, of step_backend 0]
  have rep: "fst (replay step_backend p [((7 / 10, 3 / 5, 1 / 2), 0)] 0) = None" by blast
  have row: "(0::real) \<le> 281 / 400 \<and> (281 / 400 :: real) \<le> 1" "(0::real) \<le> 477 / 800 \<and> (477 / 800 :: real) \<le> 1"
    "(0::real) \<le> 201 / 400 \<and> (201 / 400 :: real) \<le> 1"
    by simp_all
  from calculate_LEI_valid [OF valid] obtain lei0
    where lei0: "calculate_LEI (7 / 10) (3 / 5) (1 / 2) PHI 0.1 = Inr lei0" ..
  from calculate_LEI_valid [OF row] obtain lei1
    where lei1: "calculate_LEI (281 / 400) (477 / 800) (201 / 400) PHI 0.1 = Inr lei1" ..
  from simulate_evolution_valid [OF valid grid drift_free_run [of 0] rep [unfolded p_def]] lei0 lei1
  obtain tr where tr: "fst (simulate_evolution step_backend (7 / 10) (3 / 5) (1 / 2) 1 drift_free_options 0) = Inr tr"
    and cols: "traj_H tr = [7 / 10, 281 / 400]" "traj_V tr = [3 / 5, 477 / 800]"
      "traj_alpha tr = [1 / 2, 201 / 400]"
    by simp
  from trajectory_is_solver_output [OF step_backend_contract valid horizon tr] solver
  have "traj_time tr = [0, 1] \<and>
      (traj_H tr ! 0, traj_V tr ! 0, traj_alpha tr ! 0) = (7 / 10, 3 / 5, 1 / 2) \<and>
      follows_euler_maruyama step_backend p 0 tr 1"
    unfolding p_def grid_one by blast
  with tr cols step_backend_contract horizon solver show ?thesis
    unfolding p_def by blast
qed

text \<open>
  Claim C1 as stated says that the recorded states satisfy the unit-step recurrence
  for every configuration. Take the initial state \<open>(0.9, 0.3, 0.4)\<close>, horizon 1 and
  the configuration \<open>quiet_options\<close>, and the backend whose solver returns the solution
  of the system (lemmas \<open>exact_flow_solves\<close> and \<open>linear_ode_unique\<close>). It meets the
  contract of \<^verbatim>\<open>odeint\<close>, the call returns a trajectory, its sample 0 is the initial
  state and its sample 1 the value of the solution at time 1. The right-hand side at
  the recorded state \<open>x(0)\<close> and time 0 returns a value \<open>dy\<close>, and sample 1 is not
  \<open>x(0) + dy\<close>: one unit step gives \<open>H(1) = 0.9 + 0.05 * (H_eq - 0.9)\<close>, the
  solution has \<open>H(1) = H_eq + (0.9 - H_eq) * exp (-0.05)\<close>. So the trajectory does not
  satisfy the recurrence.
\<close>

theorem exact_solver_violates_euler_recurrence:
  "odeint_contract (flow_backend (make_params (9 / 10) (3 / 10) (4 / 10) quiet_options)) \<and>
   (\<exists>tr. fst (simulate_evolution (flow_backend (make_params (9 / 10) (3 / 10) (4 / 10) quiet_options))
                (9 / 10) (3 / 10) (4 / 10) 1 quiet_options 0) = Inr tr \<and>
      (traj_H tr ! 0, traj_V tr ! 0, traj_alpha tr ! 0) = (9 / 10, 3 / 10, 4 / 10) \<and>
      (traj_H tr ! 1, traj_V tr ! 1, traj_alpha tr ! 1) =
        exact_flow (make_params (9 / 10) (3 / 10) (4 / 10) quiet_options) (9 / 10, 3 / 10, 4 / 10) 1 \<and>
      (\<exists>dy g'.
         ode_system (flow_backend (make_params (9 / 10) (3 / 10) (4 / 10) quiet_options))
           (9 / 10, 3 / 10, 4 / 10) 0 (make_params (9 / 10) (3 / 10) (4 / 10) quiet_options) 0 = Inr (dy, g') \<and>
         (traj_H tr ! 1, traj_V tr ! 1, traj_alpha tr ! 1) \<noteq> advance (9 / 10, 3 / 10, 4 / 10) 1 dy) \<and>
      \<not> follows_euler_maruyama (flow_backend (make_params (9 / 10) (3 / 10) (4 / 10) quiet_options))
          (make_params (9 / 10) (3 / 10) (4 / 10) quiet_options) 0 tr 1)"
proof -
  define p where "p = make_params (9 / 10) (3 / 10) (4 / 10) quiet_options"
  define h1 where "h1 = H_eq p + (9 / 10 - H_eq p) * exp (- (1 / 20))"
  define v1 where "v1 = V_eq p + (3 / 10 - V_eq p) * exp (- (2 / 25))"
  have entries: "gamma_H p = Some (1 / 20)" "gamma_V p = Some (2 / 25)" "beta p = Some 0"
    "sigma_H p = Some 0" "sigma_V p = Some 0" "sigma_alpha p = Some 0" "noise_seed p = Some 42"
    by (simp_all add: p_def make_params_def quiet_options_def default_options_def split: prod.splits)
  have valid: "(0::real) \<le> 9 / 10 \<and> (9 / 10 :: real) \<le> 1" "(0::real) \<le> 3 / 10 \<and> (3 / 10 :: real) \<le> 1"
    "(0::real) \<le> 4 / 10 \<and> (4 / 10 :: real) \<le> 1"
    by simp_all
  have grid: "np_linspace 0 (of_int 1) (1 + 1) = Inr [0, 1]"
    by (simp add: np_linspace_def upt_rec numeral_eq_Suc)
  have flow1: "exact_flow p (9 / 10, 3 / 10, 4 / 10) 1 = (h1, v1, 4 / 10)"
    by (simp add: exact_flow_def entries get_default_def h1_def v1_def)
  have run: "odeint (flow_backend p) f (9 / 10, 3 / 10, 4 / 10) [0, 1] =
      ([], Inr [(9 / 10, 3 / 10, 4 / 10), (h1, v1, 4 / 10)])" for f
    using flow1 by (simp add: flow_backend_def flow_odeint_def exact_flow_initial)
  have rep: "fst (replay (flow_backend p) p [] 0) = None" by simp
  from equilibrium_unit [of "9 / 10" "3 / 10" "4 / 10" quiet_options]
  have Heq: "0 \<le> H_eq p \<and> H_eq p \<le> 1" and Veq: "0 \<le> V_eq p \<and> V_eq p \<le> 1"
    unfolding p_def by simp_all
  have e1: "0 < exp (- (1 / 20 :: real)) \<and> exp (- (1 / 20 :: real)) \<le> 1" by simp
  have e2: "0 < exp (- (2 / 25 :: real)) \<and> exp (- (2 / 25 :: real)) \<le> 1" by simp
  from relaxation_unit [OF Heq valid(1) e1] have h1: "0 \<le> h1 \<and> h1 \<le> 1"
    unfolding h1_def .
  from relaxation_unit [OF Veq valid(2) e2] have v1: "0 \<le> v1 \<and> v1 \<le> 1"
    unfolding v1_def .
  from calculate_LEI_valid [OF valid] obtain lei0
    where lei0: "calculate_LEI (9 / 10) (3 / 10) (4 / 10) PHI 0.1 = Inr lei0" ..
  from calculate_LEI_valid [OF h1 v1 valid(3)] obtain lei1
    where lei1: "calculate_LEI h1 v1 (4 / 10) PHI 0.1 = Inr lei1" ..
  from simulate_evolution_valid
    [OF valid grid run [of "rhs (flow_backend p) p 0", unfolded p_def] rep [unfolded p_def], folded p_def]
    lei0 lei1
  obtain tr where tr: "fst (simulate_evolution (flow_backend p) (9 / 10) (3 / 10) (4 / 10) 1 quiet_options 0) = Inr tr"
    and cols: "traj_H tr = [9 / 10, h1]" "traj_V tr = [3 / 10, v1]" "traj_alpha tr = [4 / 10, 4 / 10]"
    by simp
  have sample: "(traj_H tr ! 1, traj_V tr ! 1, traj_alpha tr ! 1) = exact_flow p (9 / 10, 3 / 10, 4 / 10) 1"
    unfolding flow1 cols by simp
  have start: "(traj_H tr ! 0, traj_V tr ! 0, traj_alpha tr ! 0) = (9 / 10, 3 / 10, 4 / 10)"
    unfolding cols by simp
  have "seed_accepted (call_seed p 0)"
    by (simp add: seed_accepted_def call_seed_def entries get_default_def py_int_def)
  from ode_system_accepted [OF this, of "flow_backend p" "(9 / 10, 3 / 10, 4 / 10)" 0] obtain dy g'
    where ode: "ode_system (flow_backend p) (9 / 10, 3 / 10, 4 / 10) 0 p 0 = Inr (dy, g')" by blast
  have differs: "(traj_H tr ! 1, traj_V tr ! 1, traj_alpha tr ! 1) \<noteq> advance (9 / 10, 3 / 10, 4 / 10) 1 dy"
  proof
    assume "(traj_H tr ! 1, traj_V tr ! 1, traj_alpha tr ! 1) = advance (9 / 10, 3 / 10, 4 / 10) 1 dy"
    then have step: "(h1, v1, 4 / 10 :: real) = advance (9 / 10, 3 / 10, 4 / 10) 1 dy"
      unfolding cols by simp
    from ode_system_formula [OF ode [unfolded p_def]]
    have "fst dy = 1 / 20 * (H_eq p - 9 / 10)"
      by (auto simp: p_def quiet_options_def default_options_def)
    with step have "h1 = 9 / 10 + 1 / 20 * (H_eq p - 9 / 10)"
      by (cases dy) (simp add: advance_def)
    then have eq: "9 / 10 + 1 / 20 * (H_eq p - 9 / 10) = H_eq p + (9 / 10 - H_eq p) * exp (- (1 / 20))"
      unfolding h1_def by (rule sym)
    have "1 / 100000 <
        \<bar>(9 / 10 + 1 / 20 * (H_eq p - 9 / 10)) - (H_eq p + (9 / 10 - H_eq p) * exp (- (1 / 20)))\<bar>"
      unfolding p_def by (rule exact_flow_differs_from_euler_step [OF H_eq_example])
    also have "\<dots> = 0"
      by (simp only: eq diff_self abs_zero)
    finally show False by simp
  qed
  have "\<not> follows_euler_maruyama (flow_backend p) p 0 tr 1"
  proof
    assume "follows_euler_maruyama (flow_backend p) p 0 tr 1"
    then obtain dy' g''
      where ode': "ode_system (flow_backend p) (traj_H tr ! 0, traj_V tr ! 0, traj_alpha tr ! 0) 0 p 0 =
          Inr (dy', g'')"
        and step: "(traj_H tr ! Suc 0, traj_V tr ! Suc 0, traj_alpha tr ! Suc 0) =
          advance (traj_H tr ! 0, traj_V tr ! 0, traj_alpha tr ! 0) 1 dy'"
      unfolding follows_euler_maruyama_def by auto
    from ode ode' [unfolded start] have "dy' = dy" by simp
    with step [unfolded start] differs show False by simp
  qed
  with tr start sample ode differs flow_backend_contract [of p] show ?thesis
    unfolding p_def by blast
qed

end
